theory Spec2Isabelle
  imports Complex_Main "HOL-Library.Log_Nat"
begin

section \<open>Managed positions: data model\<close>

text \<open>
  The embedding follows \<^verbatim>\<open>src/prophet-trader-nextjs/src/lib/services/positions.ts\<close>
  (class \<^verbatim>\<open>PositionManagerService\<close>) and the two API routes that call it.
  A JavaScript \<^verbatim>\<open>number\<close> is modelled as the \<^typ>\<open>real\<close> it denotes, and the
  arithmetic of the program as binary64 arithmetic on these (section Numbers). An optional
  or nullable field is an \<^typ>\<open>'a option\<close>. A rejected promise (a thrown \<^verbatim>\<open>Error\<close>) is the \<open>Inl\<close> branch of
  a sum, a resolved one the \<open>Inr\<close> branch.
\<close>

text \<open>
  The status strings \<^verbatim>\<open>'active'\<close>, \<^verbatim>\<open>'monitoring'\<close>, \<^verbatim>\<open>'stop_loss_triggered'\<close>,
  \<^verbatim>\<open>'take_profit_triggered'\<close>, \<^verbatim>\<open>'closed'\<close> and \<^verbatim>\<open>'error'\<close>, capitalised because
  \<open>closed\<close> is a constant of the library.
\<close>

datatype ManagedPositionStatus =
  Active | Monitoring | Stop_loss_triggered | Take_profit_triggered | Closed | Error

record ManagedPosition =
  pos_id :: string
  symbol :: string
  qty :: real
  entry_price :: real
  entry_order_id :: "string option"
  stop_loss_pct :: real
  take_profit_pct :: real
  stop_loss_price :: real
  take_profit_price :: real
  trailing_stop :: bool
  status :: ManagedPositionStatus
  current_price :: "real option"
  unrealized_pl :: "real option"
  unrealized_plpc :: "real option"
  closed_price :: "real option"
  closed_reason :: "string option"
  exit_order_id :: "string option"
  created_at :: nat
  updated_at :: nat
  closed_at :: "nat option"

datatype OrderSide = buy | sell

record CreateManagedPositionParams =
  p_symbol :: string
  p_qty :: real
  p_side :: OrderSide
  p_stopLossPct :: real
  p_takeProfitPct :: real
  p_trailingStop :: "bool option"

text \<open>A thrown JavaScript \<^verbatim>\<open>Error\<close> with its message.\<close>

datatype js_error = JsError (message: string)

subsection \<open>The collaborators\<close>

text \<open>
  Of an Alpaca order the service reads \<^verbatim>\<open>id\<close> and \<^verbatim>\<open>filled_avg_price\<close> only. The
  latter is a decimal string or absent; the service tests it for truthiness and then
  applies \<^verbatim>\<open>parseFloat\<close>. The model keeps the parsed number: \<open>None\<close> stands for an
  absent, null or empty string, \<open>Some x\<close> for a non-empty string that parses to \<open>x\<close>.
\<close>

record Order =
  order_id :: string
  filled_avg_price :: "real option"

record OrderRequest =
  o_symbol :: string
  o_qty :: real
  o_side :: OrderSide
  o_type :: string
  o_time_in_force :: string

text \<open>Of a snapshot the service reads \<^verbatim>\<open>latestTrade?.p\<close> and \<^verbatim>\<open>latestQuote?.ap\<close>.\<close>

record Snapshot =
  latestTrade_p :: "real option"
  latestQuote_ap :: "real option"

text \<open>
  The trading service, the data service and the id generator of the store are outside the
  repository's control. They are parameters of the model; each external call receives the
  value of the clock at the call, so that a service may answer differently on each call.
\<close>

record env =
  placeOrder :: "nat \<Rightarrow> OrderRequest \<Rightarrow> js_error + Order"
  getSnapshot :: "nat \<Rightarrow> string \<Rightarrow> js_error + Snapshot"
  closePosition :: "nat \<Rightarrow> string \<Rightarrow> js_error + Order"
  cuid :: "nat \<Rightarrow> string"

datatype log_level = Info | Warn | Err

text \<open>A request sent to a collaborator, recorded whether or not it succeeds.\<close>

datatype ext_call = PlaceOrder OrderRequest | GetSnapshot string | ClosePosition string

text \<open>
  The state of the program: the rows of the \<^verbatim>\<open>ManagedPosition\<close> table, the clock read by
  \<^verbatim>\<open>new Date()\<close>, the lines written to the logger, and the requests sent so far to the
  trading and data services.
\<close>

record world =
  rows :: "ManagedPosition list"
  now :: nat
  logs :: "(log_level \<times> string) list"
  calls :: "ext_call list"

text \<open>An external call is recorded and takes one unit of time.\<close>

definition called :: "ext_call \<Rightarrow> world \<Rightarrow> world" where
  "called c w = w\<lparr>now := Suc (now w), calls := calls w @ [c]\<rparr>"

definition logger :: "log_level \<Rightarrow> string \<Rightarrow> world \<Rightarrow> world" where
  "logger lvl msg w = w\<lparr>logs := logs w @ [(lvl, msg)]\<rparr>"

text \<open>JavaScript truthiness of an optional number: \<^verbatim>\<open>undefined\<close>, \<^verbatim>\<open>null\<close> and \<open>0\<close> are falsy.\<close>

fun truthy :: "real option \<Rightarrow> bool" where
  "truthy None = False"
| "truthy (Some x) = (x \<noteq> 0)"

text \<open>\<^verbatim>\<open>a || b\<close> on optional numbers.\<close>

definition js_or :: "real option \<Rightarrow> real option \<Rightarrow> real option" where
  "js_or a b = (if truthy a then a else b)"

section \<open>Numbers\<close>

text \<open>
  A JavaScript \<^verbatim>\<open>number\<close> is an IEEE 754 binary64 value. The model represents a finite
  number by the real it denotes and rounds the result of every arithmetic operation as the
  hardware does: to the nearest number with a 53-bit significand, ties to the even
  significand, with gradual underflow below \<open>2 ^ - 1022\<close> (the spacing stays at
  \<open>2 ^ - 1074\<close>). The exponent is not bounded above: where the program would produce an
  infinity, the model has the rounded finite value of magnitude \<open>2 ^ 1024\<close> or more, which
  compares with every finite number as the infinity does. \<^verbatim>\<open>NaN\<close>, the sign of zero and
  division by zero (HOL's \<open>x / 0\<close> is 0) are outside the model.
\<close>

definition pow2 :: "int \<Rightarrow> real" where
  "pow2 k = 2 powi k"

text \<open>The binary exponent of a nonzero \<open>x\<close>: the \<open>k\<close> with \<open>2 ^ k \<le> \<bar>x\<bar> < 2 ^ (k + 1)\<close>.\<close>

definition expo :: "real \<Rightarrow> int" where
  "expo x = (if 1 \<le> \<bar>x\<bar> then bitlen \<lfloor>\<bar>x\<bar>\<rfloor> - 1 else - bitlen (\<lceil>1 / \<bar>x\<bar>\<rceil> - 1))"

text \<open>Rounding to the nearest integer, ties to even.\<close>

definition round_even :: "real \<Rightarrow> int" where
  "round_even q =
     (let n = \<lfloor>q\<rfloor>; r = q - of_int n
      in if r < 1 / 2 then n else if 1 / 2 < r then n + 1 else if even n then n else n + 1)"

text \<open>The spacing of the binary64 numbers around \<open>x\<close>.\<close>

definition quantum :: "real \<Rightarrow> real" where
  "quantum x = pow2 (max (expo x) (- 1022) - 52)"

text \<open>The binary64 number nearest to \<open>x\<close>.\<close>

definition fl :: "real \<Rightarrow> real" where
  "fl x = of_int (round_even (x / quantum x)) * quantum x"

text \<open>The operators \<^verbatim>\<open>+\<close>, \<^verbatim>\<open>-\<close>, \<^verbatim>\<open>*\<close> and \<^verbatim>\<open>/\<close> of the program.\<close>

definition fadd :: "real \<Rightarrow> real \<Rightarrow> real" where
  "fadd a b = fl (a + b)"

definition fsub :: "real \<Rightarrow> real \<Rightarrow> real" where
  "fsub a b = fl (a - b)"

definition fmul :: "real \<Rightarrow> real \<Rightarrow> real" where
  "fmul a b = fl (a * b)"

definition fdiv :: "real \<Rightarrow> real \<Rightarrow> real" where
  "fdiv a b = fl (a / b)"

text \<open>The reals that are binary64 numbers: those that rounding leaves alone.\<close>

definition binary64 :: "real \<Rightarrow> bool" where
  "binary64 x \<longleftrightarrow> fl x = x"

section \<open>The threshold computation\<close>

record Prices =
  stopLossPrice :: real
  takeProfitPrice :: real

definition calculatePrices :: "real \<Rightarrow> real \<Rightarrow> real \<Rightarrow> OrderSide \<Rightarrow> Prices" where
  "calculatePrices entryPrice stopLossPct takeProfitPct side =
     (if side = buy then
        \<lparr>stopLossPrice = fmul entryPrice (fsub 1 (fdiv stopLossPct 100)),
         takeProfitPrice = fmul entryPrice (fadd 1 (fdiv takeProfitPct 100))\<rparr>
      else
        \<lparr>stopLossPrice = fmul entryPrice (fadd 1 (fdiv stopLossPct 100)),
         takeProfitPrice = fmul entryPrice (fsub 1 (fdiv takeProfitPct 100))\<rparr>)"


section \<open>The position store\<close>

text \<open>
  The Prisma client is not part of the sources; the model keeps what the service relies
  on. \<^verbatim>\<open>findUnique\<close> returns the row with the given id or null. \<^verbatim>\<open>update\<close> rejects
  when no row has the id, otherwise it applies the patch; the schema
  (\<^verbatim>\<open>03-DATABASE-SCHEMA.md\<close>) declares \<^verbatim>\<open>updated_at DateTime @updatedAt\<close>, so every
  update stamps that column with the clock. \<^verbatim>\<open>create\<close> appends the row.
\<close>

definition findUnique :: "world \<Rightarrow> string \<Rightarrow> ManagedPosition option" where
  "findUnique w i = find (\<lambda>r. pos_id r = i) (rows w)"

definition prisma_update ::
  "world \<Rightarrow> string \<Rightarrow> (ManagedPosition \<Rightarrow> ManagedPosition) \<Rightarrow> world \<times> (js_error + ManagedPosition)" where
  "prisma_update w i patch =
     (case findUnique w i of
        None \<Rightarrow> (w, Inl (JsError ''Record to update not found.''))
      | Some r0 \<Rightarrow>
          (w\<lparr>rows := map (\<lambda>r. if pos_id r = i then (patch r)\<lparr>updated_at := now w\<rparr> else r) (rows w)\<rparr>,
           Inr ((patch r0)\<lparr>updated_at := now w\<rparr>)))"

definition prisma_create :: "world \<Rightarrow> ManagedPosition \<Rightarrow> world \<times> ManagedPosition" where
  "prisma_create w r = (w\<lparr>rows := rows w @ [r]\<rparr>, r)"

text \<open>
  \<^verbatim>\<open>findMany\<close> with \<^verbatim>\<open>status in ['active', 'monitoring']\<close>, ordered by \<^verbatim>\<open>created_at\<close>
  descending (the order among equal timestamps is the database's choice; the model
  reverses a stable ascending sort).
\<close>

definition getActiveManagedPositions :: "world \<Rightarrow> ManagedPosition list" where
  "getActiveManagedPositions w =
     rev (sort_key created_at (filter (\<lambda>r. status r = Active \<or> status r = Monitoring) (rows w)))"

definition getManagedPosition :: "world \<Rightarrow> string \<Rightarrow> ManagedPosition option" where
  "getManagedPosition w i = findUnique w i"

definition not_found :: "string \<Rightarrow> js_error" where
  "not_found i = JsError (''Managed position '' @ i @ '' not found'')"

section \<open>The position manager service\<close>

text \<open>\<^verbatim>\<open>a || b\<close> where \<open>a\<close> is an optional number and \<open>b\<close> a number.\<close>

definition or_num :: "real option \<Rightarrow> real \<Rightarrow> real" where
  "or_num a b = (case a of None \<Rightarrow> b | Some x \<Rightarrow> if x \<noteq> 0 then x else b)"

subsection \<open>createManagedPosition\<close>

text \<open>The entry price: the order's fill price if it has one, else the snapshot's trade price or 0.\<close>

definition entry_price_of :: "env \<Rightarrow> world \<Rightarrow> string \<Rightarrow> Order \<Rightarrow> world \<times> (js_error + real)" where
  "entry_price_of env w symb order =
     (case filled_avg_price order of
        Some f \<Rightarrow> (w, Inr f)
      | None \<Rightarrow>
          (case getSnapshot env (now w) symb of
             Inl e \<Rightarrow> (called (GetSnapshot symb) w, Inl e)
           | Inr snapshot \<Rightarrow> (called (GetSnapshot symb) w, Inr (or_num (latestTrade_p snapshot) 0))))"

text \<open>The body of the \<^verbatim>\<open>try\<close> block.\<close>

definition createManagedPosition_try ::
  "env \<Rightarrow> world \<Rightarrow> CreateManagedPositionParams \<Rightarrow> world \<times> (js_error + ManagedPosition)" where
  "createManagedPosition_try env w params =
     (let trailingStop = (case p_trailingStop params of None \<Rightarrow> False | Some b \<Rightarrow> b);
          request = \<lparr>o_symbol = p_symbol params, o_qty = p_qty params, o_side = p_side params,
                     o_type = ''market'', o_time_in_force = ''day''\<rparr>
      in
      case placeOrder env (now w) request of
        Inl e \<Rightarrow> (called (PlaceOrder request) w, Inl e)
      | Inr order \<Rightarrow>
          (case entry_price_of env (logger Info ''Entry order placed'' (called (PlaceOrder request) w))
                  (p_symbol params) order of
             (w1, Inl e) \<Rightarrow> (w1, Inl e)
           | (w1, Inr entryPrice) \<Rightarrow>
               (let prices = calculatePrices entryPrice (p_stopLossPct params)
                               (p_takeProfitPct params) (p_side params);
                    (w2, managedPosition) = prisma_create w1
                      \<lparr>pos_id = cuid env (now w1),
                       symbol = p_symbol params,
                       qty = p_qty params,
                       entry_price = entryPrice,
                       entry_order_id = Some (order_id order),
                       stop_loss_pct = p_stopLossPct params,
                       take_profit_pct = p_takeProfitPct params,
                       stop_loss_price = stopLossPrice prices,
                       take_profit_price = takeProfitPrice prices,
                       trailing_stop = trailingStop,
                       status = Active,
                       current_price = Some entryPrice,
                       unrealized_pl = Some 0,
                       unrealized_plpc = Some 0,
                       closed_price = None,
                       closed_reason = None,
                       exit_order_id = None,
                       created_at = now w1,
                       updated_at = now w1,
                       closed_at = None\<rparr>
                in (logger Info ''Managed position created'' w2, Inr managedPosition))))"

definition createManagedPosition ::
  "env \<Rightarrow> world \<Rightarrow> CreateManagedPositionParams \<Rightarrow> world \<times> (js_error + ManagedPosition)" where
  "createManagedPosition env w params =
     (case createManagedPosition_try env (logger Info ''Creating managed position'' w) params of
        (w', Inl e) \<Rightarrow> (logger Err ''Failed to create managed position'' w', Inl e)
      | (w', Inr r) \<Rightarrow> (w', Inr r))"

subsection \<open>updateManagedPosition\<close>

text \<open>
  The profit figures are computed from the row that was read. Where the entry price is 0
  the JavaScript division yields an infinity or \<^verbatim>\<open>NaN\<close>; HOL's division yields 0 there.
\<close>

definition updateManagedPosition ::
  "world \<Rightarrow> string \<Rightarrow> real \<Rightarrow> world \<times> (js_error + ManagedPosition)" where
  "updateManagedPosition w i currentPrice =
     (case getManagedPosition w i of
        None \<Rightarrow> (w, Inl (not_found i))
      | Some position \<Rightarrow>
          (let unrealizedPl = fmul (fsub currentPrice (entry_price position)) (qty position);
               unrealizedPlpc =
                 fmul (fdiv (fsub currentPrice (entry_price position)) (entry_price position)) 100
           in prisma_update w i
                (\<lambda>r. r\<lparr>current_price := Some currentPrice,
                        unrealized_pl := Some unrealizedPl,
                        unrealized_plpc := Some unrealizedPlpc,
                        updated_at := now w\<rparr>)))"

subsection \<open>updateTrailingStop\<close>

definition updateTrailingStop :: "world \<Rightarrow> string \<Rightarrow> real \<Rightarrow> world \<times> (js_error + unit)" where
  "updateTrailingStop w i currentPrice =
     (case getManagedPosition w i of
        None \<Rightarrow> (w, Inr ())
      | Some position \<Rightarrow>
          (let newStopLossPrice = fmul currentPrice (fsub 1 (fdiv (stop_loss_pct position) 100)) in
           if newStopLossPrice > stop_loss_price position then
             (case prisma_update w i (\<lambda>r. r\<lparr>stop_loss_price := newStopLossPrice\<rparr>) of
                (w', Inl e) \<Rightarrow> (w', Inl e)
              | (w', Inr _) \<Rightarrow> (logger Info ''Trailing stop updated'' w', Inr ()))
           else (w, Inr ())))"

subsection \<open>closeManagedPosition\<close>

text \<open>The body of the \<^verbatim>\<open>try\<close> block, for the row that was read.\<close>

definition closeManagedPosition_try ::
  "env \<Rightarrow> world \<Rightarrow> string \<Rightarrow> string \<Rightarrow> real option \<Rightarrow> ManagedPosition
     \<Rightarrow> world \<times> (js_error + ManagedPosition)" where
  "closeManagedPosition_try env w i reason closedPrice position =
     (case closePosition env (now w) (symbol position) of
        Inl e \<Rightarrow> (called (ClosePosition (symbol position)) w, Inl e)
      | Inr closeOrder \<Rightarrow>
          (let w1 = called (ClosePosition (symbol position)) w;
               finalClosedPrice =
                 or_num closedPrice
                   (case filled_avg_price closeOrder of
                      Some f \<Rightarrow> f
                    | None \<Rightarrow> or_num (current_price position) (entry_price position))
           in case prisma_update w1 i
                     (\<lambda>r. r\<lparr>status := Closed,
                             closed_price := Some finalClosedPrice,
                             closed_reason := Some reason,
                             exit_order_id := Some (order_id closeOrder),
                             closed_at := Some (now w1)\<rparr>) of
                (w2, Inl e) \<Rightarrow> (w2, Inl e)
              | (w2, Inr updatedPosition) \<Rightarrow>
                  (logger Info ''Managed position closed successfully'' w2, Inr updatedPosition)))"

definition closeManagedPosition ::
  "env \<Rightarrow> world \<Rightarrow> string \<Rightarrow> string \<Rightarrow> real option \<Rightarrow> world \<times> (js_error + ManagedPosition)" where
  "closeManagedPosition env w i reason closedPrice =
     (case getManagedPosition w i of
        None \<Rightarrow> (w, Inl (not_found i))
      | Some position \<Rightarrow>
          (case closeManagedPosition_try env (logger Info ''Closing managed position'' w)
                  i reason closedPrice position of
             (w1, Inr updatedPosition) \<Rightarrow> (w1, Inr updatedPosition)
           | (w1, Inl e) \<Rightarrow>
               (case prisma_update (logger Err ''Failed to close managed position'' w1) i
                       (\<lambda>r. r\<lparr>status := Error,
                               closed_reason := Some (''Error: '' @ message e)\<rparr>) of
                  (w2, Inl e') \<Rightarrow> (w2, Inl e')
                | (w2, Inr _) \<Rightarrow> (w2, Inl e))))"

subsection \<open>monitorPosition\<close>

record MonitorResult =
  triggered :: bool
  reason :: "string option"
  action :: "string option"

definition not_triggered :: MonitorResult where
  "not_triggered = \<lparr>triggered = False, reason = None, action = None\<rparr>"

text \<open>What follows the price update inside the \<^verbatim>\<open>try\<close> block: the two checks, then the trailing stop.\<close>

definition check_triggers ::
  "env \<Rightarrow> world \<Rightarrow> string \<Rightarrow> ManagedPosition \<Rightarrow> real \<Rightarrow> world \<times> (js_error + MonitorResult)" where
  "check_triggers env w i position currentPrice =
     (let stopLossTriggered = (currentPrice \<le> stop_loss_price position);
          takeProfitTriggered = (currentPrice \<ge> take_profit_price position)
      in if stopLossTriggered then
           (case closeManagedPosition env (logger Warn ''Stop-loss triggered'' w) i
                   ''stop_loss_triggered'' (Some currentPrice) of
              (w', Inl e) \<Rightarrow> (w', Inl e)
            | (w', Inr _) \<Rightarrow>
                (w', Inr \<lparr>triggered = True, reason = Some ''stop_loss'', action = Some ''closed''\<rparr>))
         else if takeProfitTriggered then
           (case closeManagedPosition env (logger Info ''Take-profit triggered'' w) i
                   ''take_profit_triggered'' (Some currentPrice) of
              (w', Inl e) \<Rightarrow> (w', Inl e)
            | (w', Inr _) \<Rightarrow>
                (w', Inr \<lparr>triggered = True, reason = Some ''take_profit'', action = Some ''closed''\<rparr>))
         else if trailing_stop position then
           (case updateTrailingStop w i currentPrice of
              (w', Inl e) \<Rightarrow> (w', Inl e)
            | (w', Inr _) \<Rightarrow> (w', Inr not_triggered))
         else (w, Inr not_triggered))"

text \<open>The body of the \<^verbatim>\<open>try\<close> block, for the row that was read.\<close>

definition monitorPosition_try ::
  "env \<Rightarrow> world \<Rightarrow> string \<Rightarrow> ManagedPosition \<Rightarrow> world \<times> (js_error + MonitorResult)" where
  "monitorPosition_try env w i position =
     (case getSnapshot env (now w) (symbol position) of
        Inl e \<Rightarrow> (called (GetSnapshot (symbol position)) w, Inl e)
      | Inr snapshot \<Rightarrow>
          (let w1 = called (GetSnapshot (symbol position)) w;
               currentPrice = js_or (latestTrade_p snapshot) (latestQuote_ap snapshot)
           in if \<not> truthy currentPrice then
                (logger Warn ''No current price available for position'' w1, Inr not_triggered)
              else
                (case updateManagedPosition w1 i (the currentPrice) of
                   (w2, Inl e) \<Rightarrow> (w2, Inl e)
                 | (w2, Inr _) \<Rightarrow> check_triggers env w2 i position (the currentPrice))))"

definition monitorPosition ::
  "env \<Rightarrow> world \<Rightarrow> string \<Rightarrow> world \<times> (js_error + MonitorResult)" where
  "monitorPosition env w i =
     (case getManagedPosition w i of
        None \<Rightarrow> (w, Inl (not_found i))
      | Some position \<Rightarrow>
          if status position \<noteq> Active \<and> status position \<noteq> Monitoring then (w, Inr not_triggered)
          else
            (case monitorPosition_try env w i position of
               (w', Inl e) \<Rightarrow> (logger Err ''Failed to monitor position'' w', Inl e)
             | (w', Inr result) \<Rightarrow> (w', Inr result)))"

subsection \<open>monitorAllPositions\<close>

text \<open>The result \<^verbatim>\<open>{total, triggered, errors}\<close> (\<open>total\<close> is a constant of the library).\<close>

record CycleResult =
  total_n :: nat
  triggered_n :: nat
  errors_n :: nat

text \<open>The \<^verbatim>\<open>for\<close> loop with its two counters.\<close>

fun monitor_loop ::
  "env \<Rightarrow> ManagedPosition list \<Rightarrow> world \<times> nat \<times> nat \<Rightarrow> world \<times> nat \<times> nat" where
  "monitor_loop env [] s = s"
| "monitor_loop env (position # rest) (w, ntriggered, nerrors) =
     (case monitorPosition env w (pos_id position) of
        (w', Inr result) \<Rightarrow>
          monitor_loop env rest (w', if triggered result then ntriggered + 1 else ntriggered, nerrors)
      | (w', Inl e) \<Rightarrow>
          monitor_loop env rest (logger Err ''Error monitoring position'' w', ntriggered, nerrors + 1))"

definition monitorAllPositions :: "env \<Rightarrow> world \<Rightarrow> world \<times> CycleResult" where
  "monitorAllPositions env w =
     (let w0 = logger Info ''Starting position monitoring cycle'' w;
          activePositions = getActiveManagedPositions w0;
          (w1, ntriggered, nerrors) = monitor_loop env activePositions (w0, 0, 0)
      in (logger Info ''Position monitoring cycle completed'' w1,
          \<lparr>total_n = length activePositions, triggered_n = ntriggered, errors_n = nerrors\<rparr>))"


section \<open>The API routes\<close>

text \<open>
  \<^verbatim>\<open>app/api/positions/managed/route.ts\<close> (POST) and
  \<^verbatim>\<open>app/api/positions/managed/[id]/route.ts\<close> (DELETE). A request body is modelled
  after JSON decoding, with its fields at their expected JSON types; \<^verbatim>\<open>side\<close> is still
  a string.
\<close>

record CreateBody =
  b_symbol :: string
  b_qty :: real
  b_side :: string
  b_stopLossPct :: real
  b_takeProfitPct :: real
  b_trailingStop :: "bool option"

text \<open>\<^verbatim>\<open>toUpperCase\<close> on the ASCII letters (a \<^typ>\<open>char\<close> is a byte).\<close>

definition toUpperCase_char :: "char \<Rightarrow> char" where
  "toUpperCase_char c =
     (let n = (of_char c :: nat) in if 97 \<le> n \<and> n \<le> 122 then char_of (n - 32) else c)"

definition toUpperCase :: "string \<Rightarrow> string" where
  "toUpperCase s = map toUpperCase_char s"

text \<open>\<^verbatim>\<open>createManagedPositionSchema.parse\<close>: \<open>None\<close> stands for a thrown \<^verbatim>\<open>ZodError\<close>.\<close>

definition createManagedPositionSchema_parse :: "CreateBody \<Rightarrow> CreateManagedPositionParams option" where
  "createManagedPositionSchema_parse body =
     (if 1 \<le> length (b_symbol body) \<and> length (b_symbol body) \<le> 10
         \<and> 0 < b_qty body
         \<and> (b_side body = ''buy'' \<or> b_side body = ''sell'')
         \<and> 0 < b_stopLossPct body \<and> b_stopLossPct body \<le> 100
         \<and> 0 < b_takeProfitPct body \<and> b_takeProfitPct body \<le> 100
      then Some \<lparr>p_symbol = toUpperCase (b_symbol body),
                 p_qty = b_qty body,
                 p_side = (if b_side body = ''buy'' then buy else sell),
                 p_stopLossPct = b_stopLossPct body,
                 p_takeProfitPct = b_takeProfitPct body,
                 p_trailingStop = Some (case b_trailingStop body of None \<Rightarrow> False | Some b \<Rightarrow> b)\<rparr>
      else None)"

record Response =
  http_status :: nat
  success :: bool
  data :: "ManagedPosition option"
  error_text :: "string option"

text \<open>\<^verbatim>\<open>(error as Error).message || fallback\<close>: the empty string is falsy.\<close>

definition message_or :: "js_error \<Rightarrow> string \<Rightarrow> string" where
  "message_or e fallback = (if message e = [] then fallback else message e)"

definition POST :: "env \<Rightarrow> world \<Rightarrow> CreateBody \<Rightarrow> world \<times> Response" where
  "POST env w body =
     (case createManagedPositionSchema_parse body of
        None \<Rightarrow>
          (w, \<lparr>http_status = 400, success = False, data = None,
               error_text = Some ''Validation error''\<rparr>)
      | Some validatedData \<Rightarrow>
          (case createManagedPosition env
                  (logger Info ''Creating managed position via API'' w) validatedData of
             (w', Inr managedPosition) \<Rightarrow>
               (w', \<lparr>http_status = 201, success = True, data = Some managedPosition,
                     error_text = None\<rparr>)
           | (w', Inl e) \<Rightarrow>
               (logger Err ''Failed to create managed position via API'' w',
                \<lparr>http_status = 500, success = False, data = None,
                 error_text = Some (message_or e ''Failed to create managed position'')\<rparr>)))"

definition DELETE :: "env \<Rightarrow> world \<Rightarrow> string \<Rightarrow> string option \<Rightarrow> world \<times> Response" where
  "DELETE env w i reason_param =
     (let reason = (case reason_param of
                      None \<Rightarrow> ''manual_close''
                    | Some r \<Rightarrow> if r = [] then ''manual_close'' else r);
          w0 = logger Info ''Closing managed position via API'' w
      in case getManagedPosition w0 i of
           None \<Rightarrow>
             (w0, \<lparr>http_status = 404, success = False, data = None,
                   error_text = Some ''Managed position not found''\<rparr>)
         | Some position \<Rightarrow>
             if status position = Closed then
               (w0, \<lparr>http_status = 400, success = False, data = None,
                     error_text = Some ''Position is already closed''\<rparr>)
             else
               (case closeManagedPosition env w0 i reason None of
                  (w', Inr closedPosition) \<Rightarrow>
                    (w', \<lparr>http_status = 200, success = True, data = Some closedPosition,
                          error_text = None\<rparr>)
                | (w', Inl e) \<Rightarrow>
                    (logger Err ''Failed to close managed position via API'' w',
                     \<lparr>http_status = 500, success = False, data = None,
                      error_text = Some (message_or e ''Failed to close managed position'')\<rparr>)))"


section \<open>Notions used to state the properties\<close>

text \<open>The row after \<^verbatim>\<open>updateManagedPosition\<close> has stored the price \<open>c\<close> at time \<open>t\<close>.\<close>

definition priced :: "ManagedPosition \<Rightarrow> nat \<Rightarrow> real \<Rightarrow> ManagedPosition" where
  "priced p t c = p\<lparr>current_price := Some c,
                    unrealized_pl := Some (fmul (fsub c (entry_price p)) (qty p)),
                    unrealized_plpc := Some (fmul (fdiv (fsub c (entry_price p)) (entry_price p)) 100),
                    updated_at := t\<rparr>"

text \<open>
  One pass of the monitoring loop over a position: the state it leaves, including the line
  the \<^verbatim>\<open>catch\<close> of the loop logs when the evaluation raised.
\<close>

definition after_eval :: "env \<Rightarrow> world \<Rightarrow> ManagedPosition \<Rightarrow> world" where
  "after_eval env w position =
     (case monitorPosition env w (pos_id position) of
        (w', Inr result) \<Rightarrow> w'
      | (w', Inl e) \<Rightarrow> logger Err ''Error monitoring position'' w')"

text \<open>
  The evaluations of a cycle in order: for each fetched position the state in which it is
  evaluated and the outcome of \<open>monitorPosition\<close> there.
\<close>

fun cycle_trace :: "env \<Rightarrow> world \<Rightarrow> ManagedPosition list \<Rightarrow> (world \<times> (js_error + MonitorResult)) list" where
  "cycle_trace env w [] = []"
| "cycle_trace env w (position # rest) =
     (w, snd (monitorPosition env w (pos_id position))) # cycle_trace env (after_eval env w position) rest"

definition is_triggered :: "js_error + MonitorResult \<Rightarrow> bool" where
  "is_triggered r = (case r of Inl e \<Rightarrow> False | Inr result \<Rightarrow> triggered result)"

definition count_where :: "('a \<Rightarrow> bool) \<Rightarrow> 'a list \<Rightarrow> nat" where
  "count_where P xs = length (filter P xs)"

text \<open>The price \<open>monitorPosition\<close> reads off a snapshot: last trade, else best ask.\<close>

definition price_of :: "Snapshot \<Rightarrow> real option" where
  "price_of snapshot = js_or (latestTrade_p snapshot) (latestQuote_ap snapshot)"

text \<open>The row after a successful close with reason \<open>rsn\<close>, price \<open>c\<close> and exit order \<open>oid\<close> at time \<open>t\<close>.\<close>

definition closed_as :: "ManagedPosition \<Rightarrow> string \<Rightarrow> real \<Rightarrow> string \<Rightarrow> nat \<Rightarrow> ManagedPosition" where
  "closed_as p rsn c oid t =
     p\<lparr>status := Closed, closed_price := Some c, closed_reason := Some rsn,
       exit_order_id := Some oid, closed_at := Some t, updated_at := t\<rparr>"

text \<open>The market order that \<open>createManagedPosition\<close> submits for its parameters.\<close>

definition entry_request :: "CreateManagedPositionParams \<Rightarrow> OrderRequest" where
  "entry_request params =
     \<lparr>o_symbol = p_symbol params, o_qty = p_qty params, o_side = p_side params,
      o_type = ''market'', o_time_in_force = ''day''\<rparr>"

text \<open>Successive calls of \<open>updateTrailingStop\<close> on one position, one per observed price.\<close>

fun adjust_all :: "world \<Rightarrow> string \<Rightarrow> real list \<Rightarrow> world" where
  "adjust_all w i [] = w"
| "adjust_all w i (c # cs) = adjust_all (fst (updateTrailingStop w i c)) i cs"

section \<open>Sample inputs\<close>

text \<open>Concrete positions, states and collaborators on which the properties are exercised.\<close>

definition pos_long :: ManagedPosition where
  "pos_long =
     \<lparr>pos_id = ''p1'', symbol = ''AAPL'', qty = 10, entry_price = 150,
      entry_order_id = Some ''order-123'', stop_loss_pct = 2, take_profit_pct = 5,
      stop_loss_price = 147, take_profit_price = 157.5, trailing_stop = True,
      status = Active, current_price = Some 150, unrealized_pl = Some 0,
      unrealized_plpc = Some 0, closed_price = None, closed_reason = None,
      exit_order_id = None, created_at = 1, updated_at = 1, closed_at = None\<rparr>"

definition pos_short :: ManagedPosition where
  "pos_short =
     \<lparr>pos_id = ''p2'', symbol = ''TSLA'', qty = 5, entry_price = 200,
      entry_order_id = Some ''order-456'', stop_loss_pct = 3, take_profit_pct = 4,
      stop_loss_price = 206, take_profit_price = 192, trailing_stop = False,
      status = Active, current_price = Some 200, unrealized_pl = Some 0,
      unrealized_plpc = Some 0, closed_price = None, closed_reason = None,
      exit_order_id = None, created_at = 2, updated_at = 2, closed_at = None\<rparr>"

definition pos_done :: ManagedPosition where
  "pos_done =
     \<lparr>pos_id = ''p3'', symbol = ''MSFT'', qty = 1, entry_price = 256,
      entry_order_id = Some ''order-789'', stop_loss_pct = 25, take_profit_pct = 25,
      stop_loss_price = 192, take_profit_price = 320, trailing_stop = False,
      status = Closed, current_price = Some 190, unrealized_pl = Some (- 66),
      unrealized_plpc = Some (- 25.78125), closed_price = Some 190,
      closed_reason = Some ''stop_loss_triggered'', exit_order_id = Some ''close-1'',
      created_at = 0, updated_at = 5, closed_at = Some 5\<rparr>"

definition pos_up :: ManagedPosition where
  "pos_up =
     \<lparr>pos_id = ''p4'', symbol = ''NVDA'', qty = 2, entry_price = 128,
      entry_order_id = Some ''order-321'', stop_loss_pct = 25, take_profit_pct = 12.5,
      stop_loss_price = 96, take_profit_price = 144, trailing_stop = False,
      status = Monitoring, current_price = Some 130, unrealized_pl = Some 4,
      unrealized_plpc = Some 1.5625, closed_price = None, closed_reason = None,
      exit_order_id = None, created_at = 4, updated_at = 6, closed_at = None\<rparr>"

text \<open>A long position with a stop-loss percentage of 150, as the service accepts it.\<close>

definition pos_wide :: ManagedPosition where
  "pos_wide =
     \<lparr>pos_id = ''p5'', symbol = ''AMD'', qty = 1, entry_price = 152,
      entry_order_id = Some ''order-555'', stop_loss_pct = 150, take_profit_pct = 5,
      stop_loss_price = - 76, take_profit_price = 159.5, trailing_stop = True,
      status = Active, current_price = Some 152, unrealized_pl = Some 0,
      unrealized_plpc = Some 0, closed_price = None, closed_reason = None,
      exit_order_id = None, created_at = 7, updated_at = 7, closed_at = None\<rparr>"

text \<open>The number that the literal \<^verbatim>\<open>1e-15\<close> denotes.\<close>

definition tiny_pct :: real where
  "tiny_pct = fl (1 / 10 ^ 15)"

definition world_of :: "ManagedPosition list \<Rightarrow> world" where
  "world_of rs = \<lparr>rows = rs, now = 10, logs = [], calls = []\<rparr>"

definition env_of ::
  "(string \<Rightarrow> js_error + Snapshot) \<Rightarrow> (js_error + Order) \<Rightarrow> env" where
  "env_of snapshots close_result =
     \<lparr>placeOrder = (\<lambda>t request. Inr \<lparr>order_id = ''order-1'', filled_avg_price = None\<rparr>),
      getSnapshot = (\<lambda>t. snapshots),
      closePosition = (\<lambda>t s. close_result),
      cuid = (\<lambda>t. ''new-id'')\<rparr>"

definition trade_at :: "real \<Rightarrow> js_error + Snapshot" where
  "trade_at c = Inr \<lparr>latestTrade_p = Some c, latestQuote_ap = None\<rparr>"

definition close_order :: "js_error + Order" where
  "close_order = Inr \<lparr>order_id = ''close-order-123'', filled_avg_price = None\<rparr>"

definition close_failed :: "js_error + Order" where
  "close_failed = Inl (JsError ''Close failed'')"

definition env_close_fails :: env where
  "env_close_fails = env_of (\<lambda>s. trade_at 145) close_failed"

definition env_drop :: env where
  "env_drop = env_of (\<lambda>s. trade_at 145) close_order"

definition env_at_200 :: env where
  "env_at_200 = env_of (\<lambda>s. trade_at 200) close_order"

definition env_at_200_fails :: env where
  "env_at_200_fails = env_of (\<lambda>s. trade_at 200) close_failed"

definition env_fetch_throws :: env where
  "env_fetch_throws = env_of (\<lambda>s. Inl (JsError ''timeout'')) close_order"

definition env_no_price :: env where
  "env_no_price = env_of (\<lambda>s. Inr \<lparr>latestTrade_p = None, latestQuote_ap = None\<rparr>) close_order"

definition env_mixed :: env where
  "env_mixed = env_of (\<lambda>s. if s = ''TSLA'' then Inl (JsError ''timeout'') else trade_at 152) close_order"


definition env_rise :: env where
  "env_rise = env_of (\<lambda>s. trade_at 160) close_order"

definition env_calm :: env where
  "env_calm = env_of (\<lambda>s. trade_at 152) close_order"

definition params_buy :: CreateManagedPositionParams where
  "params_buy = \<lparr>p_symbol = ''AAPL'', p_qty = 10, p_side = buy, p_stopLossPct = 2,
                 p_takeProfitPct = 5, p_trailingStop = None\<rparr>"

definition params_bad :: CreateManagedPositionParams where
  "params_bad = \<lparr>p_symbol = ''AAPL'', p_qty = - 1, p_side = buy, p_stopLossPct = 150,
                 p_takeProfitPct = 5, p_trailingStop = None\<rparr>"

definition body_bad :: CreateBody where
  "body_bad = \<lparr>b_symbol = ''aapl'', b_qty = - 1, b_side = ''buy'', b_stopLossPct = 150,
               b_takeProfitPct = 5, b_trailingStop = None\<rparr>"

definition body_good :: CreateBody where
  "body_good = \<lparr>b_symbol = ''aapl'', b_qty = 10, b_side = ''buy'', b_stopLossPct = 2,
               b_takeProfitPct = 5, b_trailingStop = None\<rparr>"

definition params_good :: CreateManagedPositionParams where
  "params_good = \<lparr>p_symbol = ''AAPL'', p_qty = 10, p_side = buy, p_stopLossPct = 2,
                 p_takeProfitPct = 5, p_trailingStop = Some False\<rparr>"

section \<open>Properties\<close>

subsection \<open>Binary64 arithmetic\<close>

lemma pow2_pos [simp]: "0 < pow2 k"
  by (simp add: pow2_def power_int_def)

lemma pow2_add: "pow2 (a + b) = pow2 a * pow2 b"
  by (simp add: pow2_def power_int_add)

lemma pow2_diff: "pow2 (a - b) = pow2 a / pow2 b"
  by (simp add: pow2_def power_int_diff)

lemma pow2_0 [simp]: "pow2 0 = 1"
  by (simp add: pow2_def)

lemma pow2_le [simp]: "pow2 a \<le> pow2 b \<longleftrightarrow> a \<le> b"
  by (metis pow2_def power_int_increasing power_int_strict_increasing linorder_not_le one_less_numeral_iff
      semiring_norm(76) less_eq_real_def)

lemma pow2_less [simp]: "pow2 a < pow2 b \<longleftrightarrow> a < b"
  by (metis pow2_le linorder_not_le)

lemma pow2_nat: "0 \<le> k \<Longrightarrow> pow2 k = 2 ^ nat k"
  by (simp add: pow2_def power_int_def)

lemma pow2_neg: "k < 0 \<Longrightarrow> pow2 k = 1 / 2 ^ nat (- k)"
  by (simp add: pow2_def power_int_def field_simps)

lemma expo_bounds:
  assumes "x \<noteq> 0"
  shows "pow2 (expo x) \<le> \<bar>x\<bar>" and "\<bar>x\<bar> < pow2 (expo x + 1)"
proof -
  show "pow2 (expo x) \<le> \<bar>x\<bar>"
  proof (cases "1 \<le> \<bar>x\<bar>")
    case True
    let ?n = "\<lfloor>\<bar>x\<bar>\<rfloor>"
    have n: "0 < ?n" using True by linarith
    have b: "1 \<le> bitlen ?n" using n by (simp add: bitlen_alt_def)
    have "pow2 (bitlen ?n - 1) = 2 ^ nat (bitlen ?n - 1)" using b by (simp add: pow2_nat)
    also have "\<dots> \<le> of_int ?n" using bitlen_bounds[OF n]
      by (metis of_int_le_iff of_int_numeral of_int_power)
    also have "\<dots> \<le> \<bar>x\<bar>" by simp
    finally show ?thesis using True by (simp add: expo_def)
  next
    case False
    let ?y = "1 / \<bar>x\<bar>"
    let ?c = "\<lceil>?y\<rceil>"
    have y: "1 < ?y" using False assms by simp
    have c: "0 < ?c - 1" using y by linarith
    let ?j = "bitlen (?c - 1)"
    have j: "1 \<le> ?j" using c by (simp add: bitlen_alt_def)
    have "?y \<le> of_int ?c" by simp
    also have "of_int ?c \<le> (2::real) ^ nat ?j"
    proof -
      have "?c - 1 < 2 ^ nat ?j" using bitlen_bounds[OF c] by simp
      then have "?c \<le> 2 ^ nat ?j" by simp
      then show ?thesis by (metis of_int_le_iff of_int_numeral of_int_power)
    qed
    finally have "?y \<le> 2 ^ nat ?j" .
    then have "1 / 2 ^ nat ?j \<le> \<bar>x\<bar>" using assms
      by (simp add: field_simps)
    moreover have "pow2 (- ?j) = 1 / 2 ^ nat ?j" using j by (simp add: pow2_neg)
    ultimately show ?thesis using False by (simp add: expo_def)
  qed
  show "\<bar>x\<bar> < pow2 (expo x + 1)"
  proof (cases "1 \<le> \<bar>x\<bar>")
    case True
    let ?n = "\<lfloor>\<bar>x\<bar>\<rfloor>"
    have n: "0 < ?n" using True by linarith
    have b: "1 \<le> bitlen ?n" using n by (simp add: bitlen_alt_def)
    have "?n < 2 ^ nat (bitlen ?n)" using bitlen_bounds[OF n] by simp
    then have "?n + 1 \<le> 2 ^ nat (bitlen ?n)" by simp
    then have "of_int (?n + 1) \<le> (2::real) ^ nat (bitlen ?n)"
      by (metis of_int_le_iff of_int_numeral of_int_power)
    moreover have "\<bar>x\<bar> < of_int (?n + 1)" by linarith
    ultimately have "\<bar>x\<bar> < 2 ^ nat (bitlen ?n)" by linarith
    moreover have "pow2 (bitlen ?n - 1 + 1) = 2 ^ nat (bitlen ?n)" using b by (simp add: pow2_nat)
    ultimately show ?thesis using True by (simp add: expo_def)
  next
    case False
    let ?y = "1 / \<bar>x\<bar>"
    let ?c = "\<lceil>?y\<rceil>"
    have y: "1 < ?y" using False assms by simp
    have c: "0 < ?c - 1" using y by linarith
    let ?j = "bitlen (?c - 1)"
    have j: "1 \<le> ?j" using c by (simp add: bitlen_alt_def)
    have "(2::real) ^ nat (?j - 1) \<le> of_int (?c - 1)" using bitlen_bounds[OF c]
      by (metis of_int_le_iff of_int_numeral of_int_power)
    also have "of_int (?c - 1) < ?y" by linarith
    finally have "2 ^ nat (?j - 1) < ?y" .
    then have lt: "\<bar>x\<bar> < 1 / 2 ^ nat (?j - 1)" using assms
      by (simp add: field_simps)
    have "pow2 (- ?j + 1) = 1 / 2 ^ nat (?j - 1)"
    proof (cases "?j = 1")
      case True
      then show ?thesis by simp
    next
      case False
      then have "- ?j + 1 < 0" using j by simp
      then show ?thesis using pow2_neg[of "- ?j + 1"] by simp
    qed
    then show ?thesis using lt False by (simp add: expo_def)
  qed
qed

lemma expo_unique:
  assumes "pow2 k \<le> \<bar>x\<bar>" "\<bar>x\<bar> < pow2 (k + 1)"
  shows "expo x = k"
proof -
  have "0 < \<bar>x\<bar>" using assms(1) pow2_pos[of k] by linarith
  then have nz: "x \<noteq> 0" by simp
  have "pow2 (expo x) < pow2 (k + 1)" using expo_bounds(1)[OF nz] assms(2) by linarith
  moreover have "pow2 k < pow2 (expo x + 1)" using expo_bounds(2)[OF nz] assms(1) by linarith
  ultimately show ?thesis by simp
qed


lemma round_even_int [simp]: "round_even (of_int n) = n"
  by (simp add: round_even_def)

lemma round_even_floor:
  "(round_even q = \<lfloor>q\<rfloor> \<and> q - of_int \<lfloor>q\<rfloor> \<le> 1 / 2) \<or>
   (round_even q = \<lfloor>q\<rfloor> + 1 \<and> 1 / 2 \<le> q - of_int \<lfloor>q\<rfloor>)"
proof -
  consider "q - of_int \<lfloor>q\<rfloor> < 1 / 2" | "1 / 2 < q - of_int \<lfloor>q\<rfloor>" | "q - of_int \<lfloor>q\<rfloor> = 1 / 2"
    by linarith
  then show ?thesis
  proof cases
    case 1
    then show ?thesis unfolding round_even_def Let_def by simp
  next
    case 2
    then show ?thesis unfolding round_even_def Let_def by simp
  next
    case 3
    then show ?thesis unfolding round_even_def Let_def by simp
  qed
qed

lemma round_even_err: "\<bar>of_int (round_even q) - q\<bar> \<le> 1 / 2"
proof -
  have "0 \<le> q - of_int \<lfloor>q\<rfloor>" "q - of_int \<lfloor>q\<rfloor> < 1" by linarith+
  then show ?thesis using round_even_floor[of q] by (auto simp: abs_le_iff)
qed

lemma round_even_mono:
  assumes "q \<le> q'"
  shows "round_even q \<le> round_even q'"
proof (cases "\<lfloor>q\<rfloor> = \<lfloor>q'\<rfloor>")
  case True
  then have "q - of_int \<lfloor>q\<rfloor> \<le> q' - of_int \<lfloor>q'\<rfloor>" using assms by simp
  then show ?thesis using True unfolding round_even_def Let_def by auto
next
  case False
  then have lt: "\<lfloor>q\<rfloor> + 1 \<le> \<lfloor>q'\<rfloor>" using assms floor_mono[OF assms] by linarith
  have a: "round_even q \<le> \<lfloor>q\<rfloor> + 1" using round_even_floor[of q] by auto
  have b: "\<lfloor>q'\<rfloor> \<le> round_even q'" using round_even_floor[of q'] by auto
  show ?thesis using a b lt by linarith
qed

lemma round_even_le: "q \<le> of_int n \<Longrightarrow> round_even q \<le> n"
  using round_even_mono[of q "of_int n"] by simp

lemma round_even_ge: "of_int n \<le> q \<Longrightarrow> n \<le> round_even q"
  using round_even_mono[of "of_int n" q] by simp

lemma round_even_minus: "round_even (- q) = - round_even q"
proof (cases "q = of_int \<lfloor>q\<rfloor>")
  case True
  then obtain n where "q = of_int n" by metis
  then show ?thesis by (metis of_int_minus round_even_int)
next
  case False
  then have f: "\<lfloor>- q\<rfloor> = - \<lfloor>q\<rfloor> - 1" by linarith
  have r: "0 < q - of_int \<lfloor>q\<rfloor>" "q - of_int \<lfloor>q\<rfloor> < 1" using False by linarith+
  show ?thesis
    unfolding round_even_def Let_def f using r
    by (auto simp: field_simps)
qed


lemma pow2_nz [simp]: "pow2 k \<noteq> 0"
  using pow2_pos[of k] by linarith

lemma pow2_nonneg [simp]: "0 \<le> pow2 k"
  using pow2_pos[of k] by linarith

lemma abs_pow2 [simp]: "\<bar>pow2 k\<bar> = pow2 k"
  by simp

lemma round_even_0 [simp]: "round_even 0 = 0"
  using round_even_int[of 0] by simp

lemma quantum_pos [simp]: "0 < quantum x"
  by (simp add: quantum_def)

lemma quantum_nonneg [simp]: "0 \<le> quantum x"
  using quantum_pos[of x] by linarith

lemma quantum_nz [simp]: "quantum x \<noteq> 0"
  using quantum_pos[of x] by linarith

lemma expo_minus [simp]: "expo (- x) = expo x"
  by (simp add: expo_def)

lemma quantum_minus [simp]: "quantum (- x) = quantum x"
  by (simp add: quantum_def)

lemma fl_0 [simp]: "fl 0 = 0"
  by (simp add: fl_def)

lemma fl_minus: "fl (- x) = - fl x"
  by (simp add: fl_def round_even_minus)

lemma fl_nonneg: "0 \<le> x \<Longrightarrow> 0 \<le> fl x"
proof -
  assume "0 \<le> x"
  then have "of_int 0 \<le> x / quantum x" by simp
  then have "0 \<le> round_even (x / quantum x)" by (rule round_even_ge)
  then show ?thesis by (simp add: fl_def)
qed

lemma fl_nonpos: "x \<le> 0 \<Longrightarrow> fl x \<le> 0"
  using fl_nonneg[of "- x"] by (simp add: fl_minus)

lemma expo_less: "x \<noteq> 0 \<Longrightarrow> \<bar>x\<bar> < pow2 k \<Longrightarrow> expo x < k"
  using expo_bounds(1)[of x] pow2_less[of "expo x" k] by linarith

lemma expo_ge: "pow2 k \<le> \<bar>x\<bar> \<Longrightarrow> k \<le> expo x"
proof -
  assume a: "pow2 k \<le> \<bar>x\<bar>"
  then have "0 < \<bar>x\<bar>" using pow2_pos[of k] by linarith
  then have "x \<noteq> 0" by simp
  from expo_bounds(2)[OF this] a have "pow2 k < pow2 (expo x + 1)" by linarith
  then show ?thesis by simp
qed

lemma expo_mono: "x \<noteq> 0 \<Longrightarrow> \<bar>x\<bar> \<le> \<bar>y\<bar> \<Longrightarrow> expo x \<le> expo y"
  using expo_bounds(1)[of x] expo_ge[of "expo x" y] by linarith

lemma fl_int_quantum:
  assumes "x / quantum x = of_int n"
  shows "fl x = x"
proof -
  have "x = of_int n * quantum x" using assms by (simp add: field_simps)
  then show ?thesis using assms by (simp add: fl_def)
qed

lemma fl_exact:
  assumes n: "\<bar>n\<bar> < 2 ^ 53" and j: "- 1074 \<le> j"
  shows "fl (of_int n * pow2 j) = of_int n * pow2 j"
proof (cases "n = 0")
  case True
  then show ?thesis by simp
next
  case False
  let ?x = "of_int n * pow2 j"
  have nz: "?x \<noteq> 0" using False by simp
  have "\<bar>?x\<bar> = of_int \<bar>n\<bar> * pow2 j" by (simp add: abs_mult)
  also have "\<dots> < 2 ^ 53 * pow2 j"
  proof -
    have "(of_int \<bar>n\<bar> :: real) < of_int (2 ^ 53)" using n by (simp only: of_int_less_iff)
    then show ?thesis by simp
  qed
  also have "\<dots> = pow2 (53 + j)" by (simp add: pow2_add pow2_nat)
  finally have "expo ?x < 53 + j" using expo_less[OF nz] by simp
  then have "max (expo ?x) (- 1022) - 52 \<le> j" using j by simp
  then obtain d where d: "j = (max (expo ?x) (- 1022) - 52) + int d"
    by (metis add.commute diff_add_cancel nonneg_int_cases diff_ge_0_iff_ge)
  have "?x / quantum ?x = of_int n * pow2 (int d)"
    unfolding quantum_def by (subst (1) d) (simp add: pow2_add)
  also have "\<dots> = of_int (n * 2 ^ d)" by (simp add: pow2_nat)
  finally show ?thesis by (rule fl_int_quantum)
qed

lemma fl_pow2: "- 1074 \<le> j \<Longrightarrow> fl (pow2 j) = pow2 j"
  using fl_exact[of 1 j] by simp

lemma fl_exact_le:
  assumes n: "\<bar>n\<bar> \<le> 2 ^ 53" and j: "- 1074 \<le> j"
  shows "fl (of_int n * pow2 j) = of_int n * pow2 j"
proof (cases "\<bar>n\<bar> < 2 ^ 53")
  case True
  then show ?thesis using j by (rule fl_exact)
next
  case False
  then have "n = 2 ^ 53 \<or> n = - (2 ^ 53)" using n by linarith
  then have "of_int n * pow2 j = pow2 (53 + j) \<or> of_int n * pow2 j = - pow2 (53 + j)"
    by (auto simp: pow2_add pow2_nat)
  then show ?thesis using fl_pow2[of "53 + j"] j by (auto simp: fl_minus)
qed


lemma fl_upper:
  assumes "0 < x"
  shows "fl x \<le> pow2 (max (expo x) (- 1022) + 1)"
proof -
  let ?k = "max (expo x) (- 1022) + 1"
  have q: "quantum x = pow2 (?k - 53)" by (simp add: quantum_def)
  have "x < pow2 (expo x + 1)" using expo_bounds(2)[of x] assms by simp
  also have "\<dots> \<le> pow2 ?k" by simp
  finally have "x / quantum x \<le> pow2 ?k / quantum x" by (simp add: divide_right_mono)
  also have "pow2 ?k / quantum x = pow2 53" unfolding q by (simp flip: pow2_diff)
  also have "\<dots> = of_int (2 ^ 53)" by (simp add: pow2_nat)
  finally have "round_even (x / quantum x) \<le> 2 ^ 53" by (rule round_even_le)
  then have "(of_int (round_even (x / quantum x)) :: real) \<le> of_int (2 ^ 53)"
    by (simp only: of_int_le_iff)
  then have "fl x \<le> of_int (2 ^ 53) * quantum x" by (simp add: fl_def)
  also have "\<dots> = pow2 53 * pow2 (?k - 53)" unfolding q by (simp add: pow2_nat)
  also have "\<dots> = pow2 ?k" by (simp add: add.commute flip: pow2_add)
  finally show ?thesis .
qed

lemma fl_lower:
  assumes "0 < x" "- 1022 \<le> expo x"
  shows "pow2 (expo x) \<le> fl x"
proof -
  have q: "quantum x = pow2 (expo x - 52)" using assms(2) by (simp add: quantum_def max_def)
  have "pow2 (expo x) \<le> x" using expo_bounds(1)[of x] assms by simp
  then have "pow2 (expo x) / quantum x \<le> x / quantum x" by (simp add: divide_right_mono)
  moreover have "pow2 (expo x) / quantum x = pow2 52" unfolding q by (simp flip: pow2_diff)
  moreover have "pow2 52 = of_int (2 ^ 52)" by (simp add: pow2_nat)
  ultimately have "of_int (2 ^ 52) \<le> x / quantum x" by simp
  then have "2 ^ 52 \<le> round_even (x / quantum x)" by (rule round_even_ge)
  then have "(of_int (2 ^ 52) :: real) \<le> of_int (round_even (x / quantum x))"
    by (simp only: of_int_le_iff)
  then have "of_int (2 ^ 52) * quantum x \<le> fl x" by (simp add: fl_def)
  moreover have "of_int (2 ^ 52) * quantum x = pow2 52 * pow2 (expo x - 52)"
    unfolding q by (simp add: pow2_nat)
  moreover have "pow2 52 * pow2 (expo x - 52) = pow2 (expo x)" by (simp flip: pow2_add)
  ultimately show ?thesis by simp
qed

lemma fl_mono_pos:
  assumes "0 < x" "x \<le> y"
  shows "fl x \<le> fl y"
proof -
  have y: "0 < y" using assms by linarith
  have e: "expo x \<le> expo y" using expo_mono[of x y] assms by simp
  show ?thesis
  proof (cases "max (expo x) (- 1022) = max (expo y) (- 1022)")
    case True
    then have q: "quantum x = quantum y" by (simp add: quantum_def)
    have "x / quantum y \<le> y / quantum y" using assms(2) by (simp add: divide_right_mono)
    then have "round_even (x / quantum y) \<le> round_even (y / quantum y)" by (rule round_even_mono)
    then have "(of_int (round_even (x / quantum y)) :: real) \<le> of_int (round_even (y / quantum y))"
      by (simp only: of_int_le_iff)
    then show ?thesis by (simp add: fl_def q)
  next
    case False
    then have lt: "max (expo x) (- 1022) + 1 \<le> expo y" and n: "- 1022 \<le> expo y" using e by auto
    have "fl x \<le> pow2 (max (expo x) (- 1022) + 1)" by (rule fl_upper[OF assms(1)])
    also have "\<dots> \<le> pow2 (expo y)" using lt by simp
    also have "\<dots> \<le> fl y" by (rule fl_lower[OF y n])
    finally show ?thesis .
  qed
qed

lemma fl_mono:
  assumes "x \<le> y"
  shows "fl x \<le> fl y"
proof -
  consider "0 < x" | "x \<le> 0" "0 \<le> y" | "y < 0" by linarith
  then show ?thesis
  proof cases
    case 1
    then show ?thesis using assms by (rule fl_mono_pos)
  next
    case 2
    then show ?thesis using fl_nonpos[of x] fl_nonneg[of y] by linarith
  next
    case 3
    then have "0 < - y" "- y \<le> - x" using assms by simp_all
    then have "fl (- y) \<le> fl (- x)" by (rule fl_mono_pos)
    then show ?thesis by (simp add: fl_minus)
  qed
qed

lemma fl_eval:
  assumes "pow2 k \<le> \<bar>x\<bar>" "\<bar>x\<bar> < pow2 (k + 1)" "- 1022 \<le> k"
  shows "fl x = of_int (round_even (x / pow2 (k - 52))) * pow2 (k - 52)"
  using expo_unique[OF assms(1,2)] assms(3) by (simp add: fl_def quantum_def max_def)

lemma fl_le: "x \<le> d \<Longrightarrow> fl d = d \<Longrightarrow> fl x \<le> d"
  using fl_mono[of x d] by simp

lemma fl_ge: "d \<le> x \<Longrightarrow> fl d = d \<Longrightarrow> d \<le> fl x"
  using fl_mono[of d x] by simp

lemma fl_1 [simp]: "fl 1 = 1"
  using fl_pow2[of 0] by simp



lemma scale_down_le: "0 \<le> s \<Longrightarrow> fsub 1 (fdiv s 100) \<le> 1"
proof -
  assume "0 \<le> s"
  then have "0 \<le> fdiv s 100" by (simp add: fdiv_def fl_nonneg)
  then have "1 - fdiv s 100 \<le> 1" by simp
  then show ?thesis unfolding fsub_def by (rule fl_le) simp
qed

lemma scale_up_ge: "0 \<le> s \<Longrightarrow> 1 \<le> fadd 1 (fdiv s 100)"
proof -
  assume "0 \<le> s"
  then have "0 \<le> fdiv s 100" by (simp add: fdiv_def fl_nonneg)
  then have "1 \<le> 1 + fdiv s 100" by simp
  then show ?thesis unfolding fadd_def by (rule fl_ge) simp
qed

lemma scale_down_nonneg: "s \<le> 100 \<Longrightarrow> 0 \<le> fsub 1 (fdiv s 100)"
proof -
  assume "s \<le> 100"
  then have "s / 100 \<le> 1" by simp
  then have "fdiv s 100 \<le> 1" unfolding fdiv_def by (rule fl_le) simp
  then show ?thesis by (simp add: fsub_def fl_nonneg)
qed

lemma price_below:
  assumes "binary64 e" "0 \<le> e" "0 \<le> s"
  shows "fmul e (fsub 1 (fdiv s 100)) \<le> e"
proof -
  have "e * fsub 1 (fdiv s 100) \<le> e * 1"
    using scale_down_le[OF assms(3)] assms(2) by (rule mult_left_mono)
  then have "e * fsub 1 (fdiv s 100) \<le> e" by simp
  then show ?thesis unfolding fmul_def using assms(1) by (simp add: fl_le binary64_def)
qed

lemma price_above:
  assumes "binary64 e" "0 \<le> e" "0 \<le> s"
  shows "e \<le> fmul e (fadd 1 (fdiv s 100))"
proof -
  have "e * 1 \<le> e * fadd 1 (fdiv s 100)"
    using scale_up_ge[OF assms(3)] assms(2) by (rule mult_left_mono)
  then have "e \<le> e * fadd 1 (fdiv s 100)" by simp
  then show ?thesis unfolding fmul_def using assms(1) by (simp add: fl_ge binary64_def)
qed

lemma one_minus_eps: "fl (1 - pow2 (- 52)) = 1 - pow2 (- 52)"
proof -
  have a: "of_int (2 ^ 53 - 2) * pow2 (- 53) = 1 - pow2 (- 52)" by (simp add: pow2_def)
  have "fl (of_int (2 ^ 53 - 2) * pow2 (- 53)) = of_int (2 ^ 53 - 2) * pow2 (- 53)"
    by (rule fl_exact) simp_all
  then show ?thesis by (simp only: a)
qed

lemma one_plus_eps: "fl (1 + pow2 (- 52)) = 1 + pow2 (- 52)"
proof -
  have a: "of_int (2 ^ 52 + 1) * pow2 (- 52) = 1 + pow2 (- 52)" by (simp add: pow2_def)
  have "fl (of_int (2 ^ 52 + 1) * pow2 (- 52)) = of_int (2 ^ 52 + 1) * pow2 (- 52)"
    by (rule fl_exact) simp_all
  then show ?thesis by (simp only: a)
qed

lemma normal_form:
  assumes d: "binary64 e" and n: "pow2 (- 1022) \<le> e"
  obtains N where "e = of_int N * quantum e" "0 < N" "N < 2 ^ 53"
    "quantum e = pow2 (expo e - 52)" "- 1074 \<le> expo e - 52"
proof -
  have pos: "0 < e" using n pow2_pos[of "- 1022"] by linarith
  have x: "- 1022 \<le> expo e" using expo_ge[of "- 1022" e] n pos by simp
  then have q: "quantum e = pow2 (expo e - 52)" by (simp add: quantum_def max_def)
  let ?N = "round_even (e / quantum e)"
  have e: "e = of_int ?N * quantum e" using d by (simp add: binary64_def fl_def)
  have "0 < of_int ?N * quantum e" using pos e by simp
  then have "0 < (of_int ?N :: real)" using quantum_pos[of e] by (rule zero_less_mult_pos2)
  then have N0: "0 < ?N" by simp
  have "e < pow2 (expo e + 1)" using expo_bounds(2)[of e] pos by simp
  also have "\<dots> = of_int (2 ^ 53) * quantum e"
  proof -
    have "pow2 (expo e + 1) = pow2 (53 + (expo e - 52))" by (rule arg_cong[where f = pow2]) simp
    also have "\<dots> = pow2 53 * pow2 (expo e - 52)" by (rule pow2_add)
    also have "pow2 53 = of_int (2 ^ 53)" by (simp add: pow2_nat)
    finally show ?thesis unfolding q .
  qed
  finally have "of_int ?N * quantum e < of_int (2 ^ 53) * quantum e" using e by simp
  then have "(of_int ?N :: real) < of_int (2 ^ 53)" by (simp only: mult_less_cancel_right_pos[OF quantum_pos])
  then have "?N < 2 ^ 53" by (simp only: of_int_less_iff)
  with e N0 q x show ?thesis using that[of ?N] by simp
qed

lemma price_strictly_below:
  assumes d: "binary64 e" and n: "pow2 (- 1022) \<le> e" and s: "100 * pow2 (- 52) \<le> s"
  shows "fmul e (fsub 1 (fdiv s 100)) < e"
proof -
  from d n obtain N where N: "e = of_int N * quantum e" "0 < N" "N < 2 ^ 53"
    "quantum e = pow2 (expo e - 52)" "- 1074 \<le> expo e - 52" by (rule normal_form)
  have pos: "0 < e" using n pow2_pos[of "- 1022"] by linarith
  have "pow2 (- 52) \<le> s / 100" using s by simp
  then have "pow2 (- 52) \<le> fdiv s 100" unfolding fdiv_def by (rule fl_ge) (simp add: fl_pow2)
  then have "1 - fdiv s 100 \<le> 1 - pow2 (- 52)" by simp
  then have m: "fsub 1 (fdiv s 100) \<le> 1 - pow2 (- 52)"
    unfolding fsub_def by (rule fl_le) (rule one_minus_eps)
  have "e * fsub 1 (fdiv s 100) \<le> e * (1 - pow2 (- 52))"
    using m pos by (simp add: mult_left_mono)
  also have "\<dots> = e - e * pow2 (- 52)" by (simp add: algebra_simps)
  also have "\<dots> \<le> e - pow2 (expo e) * pow2 (- 52)"
    using expo_bounds(1)[of e] pos by (simp add: mult_right_mono)
  also have "pow2 (expo e) * pow2 (- 52) = quantum e" unfolding N(4) by (simp flip: pow2_add)
  also have "e - quantum e = of_int (N - 1) * quantum e" by (subst (1) N(1)) (simp add: algebra_simps)
  finally have le: "e * fsub 1 (fdiv s 100) \<le> of_int (N - 1) * pow2 (expo e - 52)" using N(4) by simp
  have "fl (of_int (N - 1) * pow2 (expo e - 52)) = of_int (N - 1) * pow2 (expo e - 52)"
    using N(2,3,5) by (intro fl_exact) simp_all
  with le have "fmul e (fsub 1 (fdiv s 100)) \<le> of_int (N - 1) * pow2 (expo e - 52)"
    unfolding fmul_def by (rule fl_le)
  also have "\<dots> = e - quantum e" by (subst (2) N(1)) (simp add: algebra_simps N(4))
  also have "\<dots> < e" by simp
  finally show ?thesis .
qed

lemma price_strictly_above:
  assumes d: "binary64 e" and n: "pow2 (- 1022) \<le> e" and s: "100 * pow2 (- 52) \<le> s"
  shows "e < fmul e (fadd 1 (fdiv s 100))"
proof -
  from d n obtain N where N: "e = of_int N * quantum e" "0 < N" "N < 2 ^ 53"
    "quantum e = pow2 (expo e - 52)" "- 1074 \<le> expo e - 52" by (rule normal_form)
  have pos: "0 < e" using n pow2_pos[of "- 1022"] by linarith
  have "pow2 (- 52) \<le> s / 100" using s by simp
  then have "pow2 (- 52) \<le> fdiv s 100" unfolding fdiv_def by (rule fl_ge) (simp add: fl_pow2)
  then have "1 + pow2 (- 52) \<le> 1 + fdiv s 100" by simp
  then have m: "1 + pow2 (- 52) \<le> fadd 1 (fdiv s 100)"
    unfolding fadd_def by (rule fl_ge) (rule one_plus_eps)
  have "e < e + quantum e" by simp
  also have "e + quantum e = of_int (N + 1) * pow2 (expo e - 52)"
    by (subst (1) N(1)) (simp add: algebra_simps N(4))
  finally have lt: "e < of_int (N + 1) * pow2 (expo e - 52)" .
  have "of_int (N + 1) * pow2 (expo e - 52) = e + pow2 (expo e) * pow2 (- 52)"
    by (subst (2) N(1)) (simp add: algebra_simps N(4) flip: pow2_add)
  also have "\<dots> \<le> e + e * pow2 (- 52)"
    using expo_bounds(1)[of e] pos by (simp add: mult_right_mono)
  also have "\<dots> = e * (1 + pow2 (- 52))" by (simp add: algebra_simps)
  also have "\<dots> \<le> e * fadd 1 (fdiv s 100)" using m pos by (simp add: mult_left_mono)
  finally have ge: "of_int (N + 1) * pow2 (expo e - 52) \<le> e * fadd 1 (fdiv s 100)" .
  have "fl (of_int (N + 1) * pow2 (expo e - 52)) = of_int (N + 1) * pow2 (expo e - 52)"
    using N(2,3,5) by (intro fl_exact_le) simp_all
  with ge have "of_int (N + 1) * pow2 (expo e - 52) \<le> fmul e (fadd 1 (fdiv s 100))"
    unfolding fmul_def by (rule fl_ge)
  with lt show ?thesis by linarith
qed

lemma candidate_mono:
  assumes "s \<le> 100" "c \<le> c'"
  shows "fmul c (fsub 1 (fdiv s 100)) \<le> fmul c' (fsub 1 (fdiv s 100))"
  unfolding fmul_def
  using scale_down_nonneg[OF assms(1)] assms(2) by (intro fl_mono mult_right_mono)

lemma fmul_0_left [simp]: "fmul 0 x = 0"
  by (simp add: fmul_def)

text \<open>The roundings that occur in the sample computations.\<close>

lemma stop_150_2: "fmul 150 (fsub 1 (fdiv 2 100)) = 147"
proof -
  have a: "fl (2 / 100) = 5764607523034235 / 2 ^ 58"
    by (subst fl_eval[where k = "- 6"]) (simp_all add: pow2_def round_even_def Let_def)
  have b: "fl (1 - (5764607523034235 / 2 ^ 58)) = 2206763817411543 / 2 ^ 51"
    by (subst fl_eval[where k = "- 1"]) (simp_all add: pow2_def round_even_def Let_def)
  have c: "fl (150 * (2206763817411543 / 2 ^ 51)) = 147"
    by (subst fl_eval[where k = "7"]) (simp_all add: pow2_def round_even_def Let_def)
  show ?thesis unfolding fmul_def fsub_def fdiv_def a b c ..
qed

lemma stop_160_2: "fmul 160 (fsub 1 (fdiv 2 100)) = 2758454771764429 / 2 ^ 44"
proof -
  have a: "fl (2 / 100) = 5764607523034235 / 2 ^ 58"
    by (subst fl_eval[where k = "- 6"]) (simp_all add: pow2_def round_even_def Let_def)
  have b: "fl (1 - (5764607523034235 / 2 ^ 58)) = 2206763817411543 / 2 ^ 51"
    by (subst fl_eval[where k = "- 1"]) (simp_all add: pow2_def round_even_def Let_def)
  have c: "fl (160 * (2206763817411543 / 2 ^ 51)) = 2758454771764429 / 2 ^ 44"
    by (subst fl_eval[where k = "7"]) (simp_all add: pow2_def round_even_def Let_def)
  show ?thesis unfolding fmul_def fsub_def fdiv_def a b c ..
qed

lemma stop_155_2: "fmul 155 (fsub 1 (fdiv 2 100)) = 5344506120293581 / 2 ^ 45"
proof -
  have a: "fl (2 / 100) = 5764607523034235 / 2 ^ 58"
    by (subst fl_eval[where k = "- 6"]) (simp_all add: pow2_def round_even_def Let_def)
  have b: "fl (1 - (5764607523034235 / 2 ^ 58)) = 2206763817411543 / 2 ^ 51"
    by (subst fl_eval[where k = "- 1"]) (simp_all add: pow2_def round_even_def Let_def)
  have c: "fl (155 * (2206763817411543 / 2 ^ 51)) = 5344506120293581 / 2 ^ 45"
    by (subst fl_eval[where k = "7"]) (simp_all add: pow2_def round_even_def Let_def)
  show ?thesis unfolding fmul_def fsub_def fdiv_def a b c ..
qed

lemma stop_152_2: "fmul 152 (fsub 1 (fdiv 2 100)) = 5241064066352415 / 2 ^ 45"
proof -
  have a: "fl (2 / 100) = 5764607523034235 / 2 ^ 58"
    by (subst fl_eval[where k = "- 6"]) (simp_all add: pow2_def round_even_def Let_def)
  have b: "fl (1 - (5764607523034235 / 2 ^ 58)) = 2206763817411543 / 2 ^ 51"
    by (subst fl_eval[where k = "- 1"]) (simp_all add: pow2_def round_even_def Let_def)
  have c: "fl (152 * (2206763817411543 / 2 ^ 51)) = 5241064066352415 / 2 ^ 45"
    by (subst fl_eval[where k = "7"]) (simp_all add: pow2_def round_even_def Let_def)
  show ?thesis unfolding fmul_def fsub_def fdiv_def a b c ..
qed

lemma stop_140_2: "fmul 140 (fsub 1 (fdiv 2 100)) = 2413647925293875 / 2 ^ 44"
proof -
  have a: "fl (2 / 100) = 5764607523034235 / 2 ^ 58"
    by (subst fl_eval[where k = "- 6"]) (simp_all add: pow2_def round_even_def Let_def)
  have b: "fl (1 - (5764607523034235 / 2 ^ 58)) = 2206763817411543 / 2 ^ 51"
    by (subst fl_eval[where k = "- 1"]) (simp_all add: pow2_def round_even_def Let_def)
  have c: "fl (140 * (2206763817411543 / 2 ^ 51)) = 2413647925293875 / 2 ^ 44"
    by (subst fl_eval[where k = "7"]) (simp_all add: pow2_def round_even_def Let_def)
  show ?thesis unfolding fmul_def fsub_def fdiv_def a b c ..
qed

lemma profit_150_5: "fmul 150 (fadd 1 (fdiv 5 100)) = 315 / 2 ^ 1"
proof -
  have a: "fl (5 / 100) = 3602879701896397 / 2 ^ 56"
    by (subst fl_eval[where k = "- 5"]) (simp_all add: pow2_def round_even_def Let_def)
  have b: "fl (1 + (3602879701896397 / 2 ^ 56)) = 4728779608739021 / 2 ^ 52"
    by (subst fl_eval[where k = "0"]) (simp_all add: pow2_def round_even_def Let_def)
  have c: "fl (150 * (4728779608739021 / 2 ^ 52)) = 315 / 2 ^ 1"
    by (subst fl_eval[where k = "7"]) (simp_all add: pow2_def round_even_def Let_def)
  show ?thesis unfolding fmul_def fadd_def fdiv_def a b c ..
qed

lemma stop_200_3: "fmul 200 (fadd 1 (fdiv 3 100)) = 206"
proof -
  have a: "fl (3 / 100) = 1080863910568919 / 2 ^ 55"
    by (subst fl_eval[where k = "- 6"]) (simp_all add: pow2_def round_even_def Let_def)
  have b: "fl (1 + (1080863910568919 / 2 ^ 55)) = 4638707616191611 / 2 ^ 52"
    by (subst fl_eval[where k = "0"]) (simp_all add: pow2_def round_even_def Let_def)
  have c: "fl (200 * (4638707616191611 / 2 ^ 52)) = 206"
    by (subst fl_eval[where k = "7"]) (simp_all add: pow2_def round_even_def Let_def)
  show ?thesis unfolding fmul_def fadd_def fdiv_def a b c ..
qed

lemma profit_200_4: "fmul 200 (fsub 1 (fdiv 4 100)) = 192"
proof -
  have a: "fl (4 / 100) = 5764607523034235 / 2 ^ 57"
    by (subst fl_eval[where k = "- 5"]) (simp_all add: pow2_def round_even_def Let_def)
  have b: "fl (1 - (5764607523034235 / 2 ^ 57)) = 1080863910568919 / 2 ^ 50"
    by (subst fl_eval[where k = "- 1"]) (simp_all add: pow2_def round_even_def Let_def)
  have c: "fl (200 * (1080863910568919 / 2 ^ 50)) = 192"
    by (subst fl_eval[where k = "7"]) (simp_all add: pow2_def round_even_def Let_def)
  show ?thesis unfolding fmul_def fsub_def fdiv_def a b c ..
qed

lemma stop_152_150: "fmul 152 (fsub 1 (fdiv 150 100)) = - 76"
proof -
  have a: "fl (150 / 100) = 3 / 2 ^ 1"
    by (subst fl_eval[where k = "0"]) (simp_all add: pow2_def round_even_def Let_def)
  have b: "fl (1 - (3 / 2 ^ 1)) = - (1 / 2 ^ 1)"
    by (subst fl_eval[where k = "- 1"]) (simp_all add: pow2_def round_even_def Let_def)
  have c: "fl (152 * (- (1 / 2 ^ 1))) = - 76"
    by (subst fl_eval[where k = "6"]) (simp_all add: pow2_def round_even_def Let_def)
  show ?thesis unfolding fmul_def fsub_def fdiv_def a b c ..
qed

lemma stop_100_150: "fmul 100 (fsub 1 (fdiv 150 100)) = - 50"
proof -
  have a: "fl (150 / 100) = 3 / 2 ^ 1"
    by (subst fl_eval[where k = "0"]) (simp_all add: pow2_def round_even_def Let_def)
  have b: "fl (1 - (3 / 2 ^ 1)) = - (1 / 2 ^ 1)"
    by (subst fl_eval[where k = "- 1"]) (simp_all add: pow2_def round_even_def Let_def)
  have c: "fl (100 * (- (1 / 2 ^ 1))) = - 50"
    by (subst fl_eval[where k = "5"]) (simp_all add: pow2_def round_even_def Let_def)
  show ?thesis unfolding fmul_def fsub_def fdiv_def a b c ..
qed

lemma stop_150_tiny: "fmul 150 (fsub 1 (fdiv tiny_pct 100)) = 150"
proof -
  have t: "tiny_pct = 2535301200456459 / 2 ^ 101"
    unfolding tiny_pct_def by (subst fl_eval[where k = "- 50"]) (simp_all add: pow2_def round_even_def Let_def)
  have a: "fl ((2535301200456459 / 2 ^ 101) / 100) = 6490371073168535 / 2 ^ 109"
    by (subst fl_eval[where k = "- 57"]) (simp_all add: pow2_def round_even_def Let_def)
  have b: "fl (1 - (6490371073168535 / 2 ^ 109)) = 1"
    by (subst fl_eval[where k = "- 1"]) (simp_all add: pow2_def round_even_def Let_def)
  have c: "fl (150 * 1) = 150"
    by (subst fl_eval[where k = "7"]) (simp_all add: pow2_def round_even_def Let_def)
  show ?thesis unfolding fmul_def fsub_def fdiv_def t a b c ..
qed

lemma profit_150_tiny: "fmul 150 (fadd 1 (fdiv tiny_pct 100)) = 150"
proof -
  have t: "tiny_pct = 2535301200456459 / 2 ^ 101"
    unfolding tiny_pct_def by (subst fl_eval[where k = "- 50"]) (simp_all add: pow2_def round_even_def Let_def)
  have a: "fl ((2535301200456459 / 2 ^ 101) / 100) = 6490371073168535 / 2 ^ 109"
    by (subst fl_eval[where k = "- 57"]) (simp_all add: pow2_def round_even_def Let_def)
  have b: "fl (1 + (6490371073168535 / 2 ^ 109)) = 1"
    by (subst fl_eval[where k = "0"]) (simp_all add: pow2_def round_even_def Let_def)
  have c: "fl (150 * 1) = 150"
    by (subst fl_eval[where k = "7"]) (simp_all add: pow2_def round_even_def Let_def)
  show ?thesis unfolding fmul_def fadd_def fdiv_def t a b c ..
qed

lemma tiny_pct_value: "tiny_pct = 2535301200456459 / 2 ^ 101"
  unfolding tiny_pct_def by (subst fl_eval[where k = "- 50"]) (simp_all add: pow2_def round_even_def Let_def)


subsection \<open>The store and the state\<close>

lemma find_map_update:
  assumes "\<And>r. pos_id (f r) = pos_id r"
  shows "find (\<lambda>r. pos_id r = j) (map (\<lambda>r. if pos_id r = i then f r else r) xs) =
         (if j = i then map_option f (find (\<lambda>r. pos_id r = i) xs) else find (\<lambda>r. pos_id r = j) xs)"
  by (induction xs) (auto simp: assms)

lemma findUnique_logger [simp]: "findUnique (logger l m w) i = findUnique w i"
  by (simp add: findUnique_def logger_def)

lemma findUnique_called [simp]: "findUnique (called c w) i = findUnique w i"
  by (simp add: findUnique_def called_def)

lemma now_logger [simp]: "now (logger l m w) = now w"
  by (simp add: logger_def)

lemma rows_logger [simp]: "rows (logger l m w) = rows w"
  by (simp add: logger_def)

lemma calls_logger [simp]: "calls (logger l m w) = calls w"
  by (simp add: logger_def)

lemma now_called [simp]: "now (called c w) = Suc (now w)"
  by (simp add: called_def)

lemma rows_called [simp]: "rows (called c w) = rows w"
  by (simp add: called_def)

lemma calls_called [simp]: "calls (called c w) = calls w @ [c]"
  by (simp add: called_def)

lemma prisma_update_found:
  assumes "findUnique w i = Some r0"
  shows "prisma_update w i f =
     (w\<lparr>rows := map (\<lambda>r. if pos_id r = i then (f r)\<lparr>updated_at := now w\<rparr> else r) (rows w)\<rparr>,
      Inr ((f r0)\<lparr>updated_at := now w\<rparr>))"
  using assms by (simp add: prisma_update_def)

lemma findUnique_prisma_update:
  assumes "\<And>r. pos_id (f r) = pos_id r"
  shows "findUnique (fst (prisma_update w i f)) j =
     (if j = i then map_option (\<lambda>r. (f r)\<lparr>updated_at := now w\<rparr>) (findUnique w i) else findUnique w j)"
proof (cases "findUnique w i")
  case None
  then show ?thesis by (simp add: prisma_update_def)
next
  case (Some r0)
  have "\<And>r. pos_id ((f r)\<lparr>updated_at := now w\<rparr>) = pos_id r" by (simp add: assms)
  from find_map_update[of "\<lambda>r. (f r)\<lparr>updated_at := now w\<rparr>", OF this]
  show ?thesis using Some by (simp add: prisma_update_found findUnique_def)
qed

lemma close_fail:
  assumes "getManagedPosition w i = Some p"
      and "closePosition env (now w) (symbol p) = Inl e"
  shows "snd (closeManagedPosition env w i rsn cp) = Inl e \<and>
         getManagedPosition (fst (closeManagedPosition env w i rsn cp)) i =
           Some (p\<lparr>status := Error, closed_reason := Some (''Error: '' @ message e),
                  updated_at := Suc (now w)\<rparr>)"
proof -
  let ?w1 = "called (ClosePosition (symbol p)) (logger Info ''Closing managed position'' w)"
  let ?w2 = "logger Err ''Failed to close managed position'' ?w1"
  let ?f = "\<lambda>r. r\<lparr>status := Error, closed_reason := Some (''Error: '' @ message e)\<rparr>"
  have t: "closeManagedPosition_try env (logger Info ''Closing managed position'' w) i rsn cp p = (?w1, Inl e)"
    using assms(2) by (simp add: closeManagedPosition_try_def)
  have f: "findUnique ?w2 i = Some p" using assms(1) by (simp add: getManagedPosition_def)
  have c: "closeManagedPosition env w i rsn cp = (fst (prisma_update ?w2 i ?f), Inl e)"
    using assms(1) t by (simp add: closeManagedPosition_def prisma_update_found[OF f])
  show ?thesis using findUnique_prisma_update[of ?f ?w2 i i] f
    by (simp add: c getManagedPosition_def)
qed

lemma prisma_update_frame:
  assumes "\<And>r. pos_id (f r) = pos_id r" "j \<noteq> i"
  shows "findUnique (fst (prisma_update w i f)) j = findUnique w j"
  using findUnique_prisma_update[of f w i j, OF assms(1)] assms(2) by simp

lemma updateManagedPosition_frame:
  "j \<noteq> i \<Longrightarrow> findUnique (fst (updateManagedPosition w i c)) j = findUnique w j"
  by (simp add: updateManagedPosition_def prisma_update_frame split: option.splits)

lemma updateManagedPosition_found:
  assumes "findUnique w i = Some p"
  shows "snd (updateManagedPosition w i c) =
           Inr (p\<lparr>current_price := Some c,
                  unrealized_pl := Some (fmul (fsub c (entry_price p)) (qty p)),
                  unrealized_plpc := Some (fmul (fdiv (fsub c (entry_price p)) (entry_price p)) 100),
                  updated_at := now w\<rparr>)"
    and "findUnique (fst (updateManagedPosition w i c)) i =
           Some (p\<lparr>current_price := Some c,
                  unrealized_pl := Some (fmul (fsub c (entry_price p)) (qty p)),
                  unrealized_plpc := Some (fmul (fdiv (fsub c (entry_price p)) (entry_price p)) 100),
                  updated_at := now w\<rparr>)"
    and "now (fst (updateManagedPosition w i c)) = now w"
    and "calls (fst (updateManagedPosition w i c)) = calls w"
proof -
  let ?f = "\<lambda>r. r\<lparr>current_price := Some c,
                  unrealized_pl := Some (fmul (fsub c (entry_price p)) (qty p)),
                  unrealized_plpc := Some (fmul (fdiv (fsub c (entry_price p)) (entry_price p)) 100),
                  updated_at := now w\<rparr>"
  have u: "updateManagedPosition w i c = prisma_update w i ?f"
    using assms by (simp add: updateManagedPosition_def getManagedPosition_def)
  show "snd (updateManagedPosition w i c) = Inr (?f p)"
    by (simp add: u prisma_update_found[OF assms])
  show "findUnique (fst (updateManagedPosition w i c)) i = Some (?f p)"
    using findUnique_prisma_update[of ?f w i i] assms by (simp add: u)
  show "now (fst (updateManagedPosition w i c)) = now w"
    by (simp add: u prisma_update_found[OF assms])
  show "calls (fst (updateManagedPosition w i c)) = calls w"
    by (simp add: u prisma_update_found[OF assms])
qed

lemma updateTrailingStop_frame:
  "j \<noteq> i \<Longrightarrow> findUnique (fst (updateTrailingStop w i c)) j = findUnique w j"
  using prisma_update_frame[of "\<lambda>r. r\<lparr>stop_loss_price := fmul c (fsub 1 (fdiv (stop_loss_pct (the (findUnique w i))) 100))\<rparr>" j i w]
  by (auto simp: updateTrailingStop_def getManagedPosition_def Let_def split: option.splits prod.splits sum.splits)

lemma closeManagedPosition_try_frame:
  "j \<noteq> i \<Longrightarrow> findUnique (fst (closeManagedPosition_try env w i rsn cp p)) j = findUnique w j"
proof (cases "closePosition env (now w) (symbol p)")
  case (Inl e)
  then show ?thesis by (simp add: closeManagedPosition_try_def)
next
  case (Inr ord)
  assume ji: "j \<noteq> i"
  let ?w1 = "called (ClosePosition (symbol p)) w"
  let ?f = "\<lambda>r. r\<lparr>status := Closed,
       closed_price := Some (or_num cp (case filled_avg_price ord of Some f \<Rightarrow> f
                    | None \<Rightarrow> or_num (current_price p) (entry_price p))),
       closed_reason := Some rsn, exit_order_id := Some (order_id ord),
       closed_at := Some (now ?w1)\<rparr>"
  have "findUnique (fst (prisma_update ?w1 i ?f)) j = findUnique ?w1 j"
    by (rule prisma_update_frame) (simp_all add: ji)
  then show ?thesis using Inr
    by (auto simp: closeManagedPosition_try_def Let_def split: prod.splits sum.splits)
qed

lemma closeManagedPosition_frame:
  assumes ji: "j \<noteq> i"
  shows "findUnique (fst (closeManagedPosition env w i rsn cp)) j = findUnique w j"
proof (cases "getManagedPosition w i")
  case None
  then show ?thesis by (simp add: closeManagedPosition_def)
next
  case (Some p)
  let ?w0 = "logger Info ''Closing managed position'' w"
  obtain w1 res where t: "closeManagedPosition_try env ?w0 i rsn cp p = (w1, res)"
    by (cases "closeManagedPosition_try env ?w0 i rsn cp p")
  have w1: "findUnique w1 j = findUnique w j"
    using closeManagedPosition_try_frame[OF ji, of env ?w0 rsn cp p] t by simp
  show ?thesis
  proof (cases res)
    case (Inr u)
    then show ?thesis using Some t w1 by (simp add: closeManagedPosition_def)
  next
    case (Inl e)
    let ?f = "\<lambda>r. r\<lparr>status := Error, closed_reason := Some (''Error: '' @ message e)\<rparr>"
    have "findUnique (fst (prisma_update (logger Err ''Failed to close managed position'' w1) i ?f)) j
            = findUnique (logger Err ''Failed to close managed position'' w1) j"
      by (rule prisma_update_frame) (simp_all add: ji)
    then show ?thesis using Some t w1 Inl
      by (auto simp: closeManagedPosition_def split: prod.splits sum.splits)
  qed
qed

lemma check_triggers_frame:
  assumes ji: "j \<noteq> i"
  shows "findUnique (fst (check_triggers env w i p c)) j = findUnique w j"
  using closeManagedPosition_frame[OF ji, of env "logger Warn ''Stop-loss triggered'' w" "''stop_loss_triggered''" "Some c"]
        closeManagedPosition_frame[OF ji, of env "logger Info ''Take-profit triggered'' w" "''take_profit_triggered''" "Some c"]
        updateTrailingStop_frame[OF ji, of w c]
  by (auto simp: check_triggers_def Let_def split: prod.splits sum.splits)

lemma monitorPosition_try_frame:
  assumes ji: "j \<noteq> i"
  shows "findUnique (fst (monitorPosition_try env w i p)) j = findUnique w j"
proof (cases "getSnapshot env (now w) (symbol p)")
  case (Inl e)
  then show ?thesis by (simp add: monitorPosition_try_def)
next
  case (Inr snap)
  let ?w1 = "called (GetSnapshot (symbol p)) w"
  let ?c = "js_or (latestTrade_p snap) (latestQuote_ap snap)"
  show ?thesis
  proof (cases "truthy ?c")
    case False
    then show ?thesis using Inr by (simp add: monitorPosition_try_def Let_def)
  next
    case True
    obtain w2 res where u: "updateManagedPosition ?w1 i (the ?c) = (w2, res)"
      by (cases "updateManagedPosition ?w1 i (the ?c)")
    have w2: "findUnique w2 j = findUnique w j"
      using updateManagedPosition_frame[OF ji, of ?w1 "the ?c"] u by simp
    show ?thesis using Inr True u w2 check_triggers_frame[OF ji, of env w2 p "the ?c"]
      by (cases res) (simp_all add: monitorPosition_try_def Let_def)
  qed
qed

lemma monitorPosition_frame:
  assumes ji: "j \<noteq> i"
  shows "findUnique (fst (monitorPosition env w i)) j = findUnique w j"
proof (cases "getManagedPosition w i")
  case None
  then show ?thesis by (simp add: monitorPosition_def)
next
  case (Some p)
  obtain w1 res where t: "monitorPosition_try env w i p = (w1, res)"
    by (cases "monitorPosition_try env w i p")
  have "findUnique w1 j = findUnique w j"
    using monitorPosition_try_frame[OF ji, of env w p] t by simp
  then show ?thesis using Some t
    by (cases res) (simp_all add: monitorPosition_def)
qed

lemma close_ok:
  assumes g: "getManagedPosition w i = Some p"
      and c: "closePosition env (now w) (symbol p) = Inr ord"
  shows "closeManagedPosition env w i rsn cp =
           (logger Info ''Managed position closed successfully''
              (fst (prisma_update (called (ClosePosition (symbol p)) (logger Info ''Closing managed position'' w)) i
                 (\<lambda>r. r\<lparr>status := Closed,
                         closed_price := Some (or_num cp (case filled_avg_price ord of Some f \<Rightarrow> f
                                                | None \<Rightarrow> or_num (current_price p) (entry_price p))),
                         closed_reason := Some rsn,
                         exit_order_id := Some (order_id ord),
                         closed_at := Some (Suc (now w))\<rparr>))),
            Inr (p\<lparr>status := Closed,
                   closed_price := Some (or_num cp (case filled_avg_price ord of Some f \<Rightarrow> f
                                                | None \<Rightarrow> or_num (current_price p) (entry_price p))),
                   closed_reason := Some rsn,
                   exit_order_id := Some (order_id ord),
                   closed_at := Some (Suc (now w)),
                   updated_at := Suc (now w)\<rparr>))"
proof -
  let ?w1 = "called (ClosePosition (symbol p)) (logger Info ''Closing managed position'' w)"
  have f: "findUnique ?w1 i = Some p" using g by (simp add: getManagedPosition_def)
  show ?thesis using g c
    by (simp add: closeManagedPosition_def closeManagedPosition_try_def Let_def
          prisma_update_found[OF f])
qed

lemma close_ok_row:
  assumes g: "getManagedPosition w i = Some p"
      and c: "closePosition env (now w) (symbol p) = Inr ord"
  shows "getManagedPosition (fst (closeManagedPosition env w i rsn cp)) i =
           Some (p\<lparr>status := Closed,
                   closed_price := Some (or_num cp (case filled_avg_price ord of Some f \<Rightarrow> f
                                                | None \<Rightarrow> or_num (current_price p) (entry_price p))),
                   closed_reason := Some rsn,
                   exit_order_id := Some (order_id ord),
                   closed_at := Some (Suc (now w)),
                   updated_at := Suc (now w)\<rparr>)"
proof -
  let ?w1 = "called (ClosePosition (symbol p)) (logger Info ''Closing managed position'' w)"
  let ?f = "\<lambda>r. r\<lparr>status := Closed,
                         closed_price := Some (or_num cp (case filled_avg_price ord of Some f \<Rightarrow> f
                                                | None \<Rightarrow> or_num (current_price p) (entry_price p))),
                         closed_reason := Some rsn,
                         exit_order_id := Some (order_id ord),
                         closed_at := Some (Suc (now w))\<rparr>"
  have f: "findUnique ?w1 i = Some p" using g by (simp add: getManagedPosition_def)
  show ?thesis using findUnique_prisma_update[of ?f ?w1 i i] f
    by (simp add: close_ok[OF g c] getManagedPosition_def)
qed

lemma trailing_row:
  assumes g: "getManagedPosition w i = Some p"
  shows "snd (updateTrailingStop w i c) = Inr ()"
    and "getManagedPosition (fst (updateTrailingStop w i c)) i =
           Some (if fmul c (fsub 1 (fdiv (stop_loss_pct p) 100)) > stop_loss_price p
                 then p\<lparr>stop_loss_price := fmul c (fsub 1 (fdiv (stop_loss_pct p) 100)), updated_at := now w\<rparr>
                 else p)"
    and "\<not> fmul c (fsub 1 (fdiv (stop_loss_pct p) 100)) > stop_loss_price p \<Longrightarrow> updateTrailingStop w i c = (w, Inr ())"
proof -
  let ?f = "\<lambda>r. r\<lparr>stop_loss_price := fmul c (fsub 1 (fdiv (stop_loss_pct p) 100))\<rparr>"
  have f: "findUnique w i = Some p" using g by (simp add: getManagedPosition_def)
  show "snd (updateTrailingStop w i c) = Inr ()"
    using g by (simp add: updateTrailingStop_def Let_def prisma_update_found[OF f])
  show "getManagedPosition (fst (updateTrailingStop w i c)) i =
           Some (if fmul c (fsub 1 (fdiv (stop_loss_pct p) 100)) > stop_loss_price p
                 then p\<lparr>stop_loss_price := fmul c (fsub 1 (fdiv (stop_loss_pct p) 100)), updated_at := now w\<rparr>
                 else p)"
    using g f findUnique_prisma_update[of ?f w i i]
    by (simp add: updateTrailingStop_def Let_def prisma_update_found[OF f] getManagedPosition_def)
  show "\<not> fmul c (fsub 1 (fdiv (stop_loss_pct p) 100)) > stop_loss_price p \<Longrightarrow> updateTrailingStop w i c = (w, Inr ())"
    using g by (simp add: updateTrailingStop_def Let_def)
qed

lemma monitor_skip:
  assumes "getManagedPosition w i = Some p" "status p \<noteq> Active" "status p \<noteq> Monitoring"
  shows "monitorPosition env w i = (w, Inr not_triggered)"
  using assms by (simp add: monitorPosition_def)

lemma monitor_throw:
  assumes "getManagedPosition w i = Some p" "status p = Active \<or> status p = Monitoring"
      and "getSnapshot env (now w) (symbol p) = Inl e"
  shows "monitorPosition env w i =
           (logger Err ''Failed to monitor position'' (called (GetSnapshot (symbol p)) w), Inl e)"
  using assms by (auto simp: monitorPosition_def monitorPosition_try_def)

lemma monitor_no_price:
  assumes "getManagedPosition w i = Some p" "status p = Active \<or> status p = Monitoring"
      and "getSnapshot env (now w) (symbol p) = Inr snap"
      and "\<not> truthy (js_or (latestTrade_p snap) (latestQuote_ap snap))"
  shows "monitorPosition env w i =
           (logger Warn ''No current price available for position'' (called (GetSnapshot (symbol p)) w),
            Inr not_triggered)"
  using assms by (auto simp: monitorPosition_def monitorPosition_try_def Let_def)

lemma monitor_priced:
  assumes g: "getManagedPosition w i = Some p" and a: "status p = Active \<or> status p = Monitoring"
      and s: "getSnapshot env (now w) (symbol p) = Inr snap"
      and c: "js_or (latestTrade_p snap) (latestQuote_ap snap) = Some c" "c \<noteq> 0"
  shows "monitorPosition env w i =
           (case check_triggers env (fst (updateManagedPosition (called (GetSnapshot (symbol p)) w) i c)) i p c of
              (w', Inl e) \<Rightarrow> (logger Err ''Failed to monitor position'' w', Inl e)
            | (w', Inr result) \<Rightarrow> (w', Inr result))"
proof -
  let ?w1 = "called (GetSnapshot (symbol p)) w"
  have f: "findUnique ?w1 i = Some p" using g by (simp add: getManagedPosition_def)
  obtain w2 where u: "updateManagedPosition ?w1 i c = (w2, Inr (priced p (Suc (now w)) c))"
    using updateManagedPosition_found(1)[OF f, of c]
    by (cases "updateManagedPosition ?w1 i c") (simp add: priced_def)
  show ?thesis using g a s c u
    by (auto simp: monitorPosition_def monitorPosition_try_def Let_def)
qed

lemma after_update:
  assumes g: "getManagedPosition w i = Some p"
  shows "getManagedPosition (fst (updateManagedPosition (called k w) i c)) i = Some (priced p (Suc (now w)) c)"
    and "now (fst (updateManagedPosition (called k w) i c)) = Suc (now w)"
proof -
  have f: "findUnique (called k w) i = Some p" using g by (simp add: getManagedPosition_def)
  show "getManagedPosition (fst (updateManagedPosition (called k w) i c)) i = Some (priced p (Suc (now w)) c)"
    using updateManagedPosition_found(2)[OF f, of c] by (simp add: getManagedPosition_def priced_def)
  show "now (fst (updateManagedPosition (called k w) i c)) = Suc (now w)"
    using updateManagedPosition_found(3)[OF f, of c] by simp
qed

lemma check_stop_loss:
  assumes "c \<le> stop_loss_price p"
  shows "check_triggers env w i p c =
           (case closeManagedPosition env (logger Warn ''Stop-loss triggered'' w) i
                   ''stop_loss_triggered'' (Some c) of
              (w', Inl e) \<Rightarrow> (w', Inl e)
            | (w', Inr _) \<Rightarrow>
                (w', Inr \<lparr>triggered = True, reason = Some ''stop_loss'', action = Some ''closed''\<rparr>))"
  using assms by (simp add: check_triggers_def)

lemma check_take_profit:
  assumes "\<not> c \<le> stop_loss_price p" "take_profit_price p \<le> c"
  shows "check_triggers env w i p c =
           (case closeManagedPosition env (logger Info ''Take-profit triggered'' w) i
                   ''take_profit_triggered'' (Some c) of
              (w', Inl e) \<Rightarrow> (w', Inl e)
            | (w', Inr _) \<Rightarrow>
                (w', Inr \<lparr>triggered = True, reason = Some ''take_profit'', action = Some ''closed''\<rparr>))"
  using assms by (simp add: check_triggers_def)

lemma check_none:
  assumes "\<not> c \<le> stop_loss_price p" "\<not> take_profit_price p \<le> c"
  shows "check_triggers env w i p c =
           (if trailing_stop p then
              (case updateTrailingStop w i c of
                 (w', Inl e) \<Rightarrow> (w', Inl e)
               | (w', Inr _) \<Rightarrow> (w', Inr not_triggered))
            else (w, Inr not_triggered))"
  using assms by (simp add: check_triggers_def)

text \<open>The row of the evaluated position keeps the observed price through close and trailing stop.\<close>

lemma close_keeps_current_price:
  assumes g: "getManagedPosition w i = Some p"
  shows "\<exists>r. getManagedPosition (fst (closeManagedPosition env w i rsn cp)) i = Some r \<and>
             current_price r = current_price p"
proof (cases "closePosition env (now w) (symbol p)")
  case (Inl e)
  then show ?thesis using close_fail[OF g Inl, of rsn cp] by simp
next
  case (Inr ord)
  then show ?thesis using close_ok_row[OF g Inr, of rsn cp] by simp
qed

lemma trailing_keeps_current_price:
  assumes g: "getManagedPosition w i = Some p"
  shows "\<exists>r. getManagedPosition (fst (updateTrailingStop w i c)) i = Some r \<and>
             current_price r = current_price p"
  using trailing_row(2)[OF g, of c] by simp

lemma getManagedPosition_logger [simp]: "getManagedPosition (logger l m w) i = getManagedPosition w i"
  by (simp add: getManagedPosition_def)

lemma check_keeps_current_price:
  assumes g: "getManagedPosition w i = Some q"
  shows "\<exists>r. getManagedPosition (fst (check_triggers env w i p c)) i = Some r \<and>
             current_price r = current_price q"
proof -
  have g1: "getManagedPosition (logger Warn ''Stop-loss triggered'' w) i = Some q"
   and g2: "getManagedPosition (logger Info ''Take-profit triggered'' w) i = Some q"
    using g by simp_all
  show ?thesis
    using close_keeps_current_price[OF g1, of env "''stop_loss_triggered''" "Some c"]
          close_keeps_current_price[OF g2, of env "''take_profit_triggered''" "Some c"]
          trailing_keeps_current_price[OF g, of c] g
    by (auto simp: check_triggers_def Let_def split: prod.splits sum.splits)
qed

lemma monitor_records_price:
  assumes g: "getManagedPosition w i = Some p" and a: "status p = Active \<or> status p = Monitoring"
      and s: "getSnapshot env (now w) (symbol p) = Inr snap"
      and c: "js_or (latestTrade_p snap) (latestQuote_ap snap) = Some c" "c \<noteq> 0"
  shows "\<exists>r. getManagedPosition (fst (monitorPosition env w i)) i = Some r \<and> current_price r = Some c"
proof -
  let ?w2 = "fst (updateManagedPosition (called (GetSnapshot (symbol p)) w) i c)"
  have g2: "getManagedPosition ?w2 i = Some (priced p (Suc (now w)) c)"
    by (rule after_update(1)[OF g])
  from check_keeps_current_price[OF g2, of env p c]
  obtain r where r: "getManagedPosition (fst (check_triggers env ?w2 i p c)) i = Some r"
     "current_price r = Some c" by (auto simp: priced_def)
  show ?thesis using r
    by (auto simp: monitor_priced[OF g a s c] split: prod.splits sum.splits)
qed

lemma monitor_loop_step:
  "monitor_loop env (p # rest) (w, t, e) =
     monitor_loop env rest
       (after_eval env w p,
        t + (if is_triggered (snd (monitorPosition env w (pos_id p))) then 1 else 0),
        e + (if isl (snd (monitorPosition env w (pos_id p))) then 1 else 0))"
  by (simp add: after_eval_def is_triggered_def split: prod.splits sum.splits)

lemma monitor_loop_counts:
  "snd (monitor_loop env ps (w, t, e)) =
     (t + count_where is_triggered (map snd (cycle_trace env w ps)),
      e + count_where isl (map snd (cycle_trace env w ps)))"
proof (induction ps arbitrary: w t e)
  case Nil
  then show ?case by (simp add: count_where_def)
next
  case (Cons p ps)
  show ?case
    unfolding monitor_loop_step Cons.IH
    by (simp add: count_where_def)
qed

lemma length_cycle_trace: "length (cycle_trace env w ps) = length ps"
  by (induction ps arbitrary: w) simp_all

lemma after_eval_frame:
  "j \<noteq> pos_id p \<Longrightarrow> findUnique (after_eval env w p) j = findUnique w j"
  using monitorPosition_frame[of j "pos_id p" env w]
  by (auto simp: after_eval_def split: prod.splits sum.splits)

lemma after_eval_row:
  "getManagedPosition (after_eval env w p) j = getManagedPosition (fst (monitorPosition env w (pos_id p))) j"
  by (auto simp: after_eval_def split: prod.splits sum.splits)

lemma monitor_loop_frame:
  "j \<notin> pos_id ` set ps \<Longrightarrow> findUnique (fst (monitor_loop env ps (w, t, e))) j = findUnique w j"
proof (induction ps arbitrary: w t e)
  case Nil
  then show ?case by simp
next
  case (Cons p ps)
  then have "j \<noteq> pos_id p" "j \<notin> pos_id ` set ps" by auto
  then show ?case
    unfolding monitor_loop_step by (simp add: Cons.IH after_eval_frame)
qed

lemma cycle_trace_evaluates:
  "k < length ps \<Longrightarrow>
   snd (cycle_trace env w ps ! k) = snd (monitorPosition env (fst (cycle_trace env w ps ! k)) (pos_id (ps ! k)))"
proof (induction ps arbitrary: w k)
  case Nil
  then show ?case by simp
next
  case (Cons p ps)
  then show ?case by (cases k) simp_all
qed

lemma monitor_loop_prices:
  assumes "distinct (map pos_id ps)"
      and "\<forall>p \<in> set ps. getManagedPosition w (pos_id p) = Some p \<and> (status p = Active \<or> status p = Monitoring)"
      and "k < length ps"
      and "getSnapshot env (now (fst (cycle_trace env w ps ! k))) (symbol (ps ! k)) = Inr snap"
      and "price_of snap = Some c" "c \<noteq> 0"
  shows "\<exists>r. getManagedPosition (fst (monitor_loop env ps (w, t, e))) (pos_id (ps ! k)) = Some r
             \<and> current_price r = Some c"
  using assms
proof (induction ps arbitrary: w t e k)
  case Nil
  then show ?case by simp
next
  case (Cons p ps)
  have notin: "pos_id p \<notin> pos_id ` set ps" and dist: "distinct (map pos_id ps)"
    using Cons.prems(1) by auto
  show ?case
  proof (cases k)
    case 0
    have g: "getManagedPosition w (pos_id p) = Some p" and a: "status p = Active \<or> status p = Monitoring"
      using Cons.prems(2) by auto
    have s: "getSnapshot env (now w) (symbol p) = Inr snap" using Cons.prems(4) 0 by simp
    from monitor_records_price[OF g a s] Cons.prems(5,6)
    obtain r where r: "getManagedPosition (fst (monitorPosition env w (pos_id p))) (pos_id p) = Some r"
      "current_price r = Some c" by (auto simp: price_of_def)
    have "getManagedPosition (fst (monitor_loop env (p # ps) (w, t, e))) (pos_id p) =
          getManagedPosition (after_eval env w p) (pos_id p)"
      unfolding monitor_loop_step getManagedPosition_def
      by (rule monitor_loop_frame[OF notin])
    then show ?thesis using r 0 by (simp add: after_eval_row)
  next
    case (Suc k')
    have pre: "\<forall>q \<in> set ps. getManagedPosition (after_eval env w p) (pos_id q) = Some q
                 \<and> (status q = Active \<or> status q = Monitoring)"
    proof
      fix q assume q: "q \<in> set ps"
      then have ne: "pos_id q \<noteq> pos_id p" using notin by (metis imageI)
      show "getManagedPosition (after_eval env w p) (pos_id q) = Some q
                 \<and> (status q = Active \<or> status q = Monitoring)"
        using Cons.prems(2) q after_eval_frame[OF ne, of env w]
        by (simp add: getManagedPosition_def)
    qed
    have k': "k' < length ps" using Cons.prems(3) Suc by simp
    have s: "getSnapshot env (now (fst (cycle_trace env (after_eval env w p) ps ! k'))) (symbol (ps ! k')) = Inr snap"
      using Cons.prems(4) Suc by simp
    from Cons.IH[OF dist pre k' s Cons.prems(5,6)]
    show ?thesis unfolding monitor_loop_step using Suc by simp
  qed
qed

lemma find_distinct:
  "distinct (map pos_id xs) \<Longrightarrow> p \<in> set xs \<Longrightarrow> find (\<lambda>r. pos_id r = pos_id p) xs = Some p"
  by (induction xs) (auto simp: image_iff)

lemma distinct_map_insort_key:
  "distinct (map g (insort_key f x xs)) = (g x \<notin> g ` set xs \<and> distinct (map g xs))"
  by (induction xs) (auto simp: set_insort_key)

lemma distinct_map_sort_key:
  "distinct (map g (sort_key f xs)) = distinct (map g xs)"
  by (induction xs) (simp_all add: distinct_map_insort_key)

lemma active_positions:
  assumes "distinct (map pos_id (rows w))"
  shows "distinct (map pos_id (getActiveManagedPositions w))"
    and "\<forall>p \<in> set (getActiveManagedPositions w).
           getManagedPosition w (pos_id p) = Some p \<and> (status p = Active \<or> status p = Monitoring)"
proof -
  show "distinct (map pos_id (getActiveManagedPositions w))"
    using assms by (simp add: getActiveManagedPositions_def distinct_map_sort_key distinct_map_filter
        flip: rev_map)
  show "\<forall>p \<in> set (getActiveManagedPositions w).
           getManagedPosition w (pos_id p) = Some p \<and> (status p = Active \<or> status p = Monitoring)"
    using assms find_distinct[of "rows w"]
    by (auto simp: getActiveManagedPositions_def getManagedPosition_def findUnique_def)
qed

lemmas ex_defs = pos_long_def pos_short_def pos_done_def pos_up_def pos_wide_def world_of_def env_of_def trade_at_def
  close_order_def close_failed_def env_close_fails_def env_drop_def env_at_200_def
  env_fetch_throws_def env_no_price_def env_mixed_def env_rise_def env_calm_def
  env_at_200_fails_def

subsection \<open>Thresholds at creation\<close>

lemma binary64_150: "binary64 150"
  using fl_exact[of 150 0] by (simp add: binary64_def)

lemma binary64_200: "binary64 200"
  using fl_exact[of 200 0] by (simp add: binary64_def)

lemma tiny_pct_positive: "0 < tiny_pct"
  by (simp add: tiny_pct_value)

lemma tiny_pct_binary64: "binary64 tiny_pct"
proof -
  have "fl (of_int 2535301200456459 * pow2 (- 101)) = of_int 2535301200456459 * pow2 (- 101)"
    by (rule fl_exact) simp_all
  moreover have "of_int 2535301200456459 * pow2 (- 101) = tiny_pct"
    by (simp add: tiny_pct_value pow2_def)
  ultimately show ?thesis by (simp add: binary64_def)
qed

text \<open>
  C3 (as amended). The thresholds computed at creation are, in binary64 arithmetic, for a
  long position (side buy) stopLoss = entry * (1 - slPct/100) and takeProfit =
  entry * (1 + tpPct/100), and for a short position (side sell) the mirrored formulas,
  each operation rounded. For every positive binary64 entry price and positive
  percentages, a long position has stopLoss \<le> entry \<le> takeProfit and a short one
  takeProfit \<le> entry \<le> stopLoss. The inequalities are strict when the entry price is a
  normal number (at least 2 ^ -1022) and both percentages are at least 100 * 2 ^ -52
  (about 2.3e-14); below that the percentage is absorbed by rounding and a threshold can
  equal the entry price.
\<close>

theorem calculatePrices_thresholds:
  "stopLossPrice (calculatePrices e sl tp buy) = fmul e (fsub 1 (fdiv sl 100)) \<and>
   takeProfitPrice (calculatePrices e sl tp buy) = fmul e (fadd 1 (fdiv tp 100)) \<and>
   stopLossPrice (calculatePrices e sl tp sell) = fmul e (fadd 1 (fdiv sl 100)) \<and>
   takeProfitPrice (calculatePrices e sl tp sell) = fmul e (fsub 1 (fdiv tp 100)) \<and>
   (binary64 e \<and> 0 < e \<and> 0 < sl \<and> 0 < tp \<longrightarrow>
      stopLossPrice (calculatePrices e sl tp buy) \<le> e \<and>
      e \<le> takeProfitPrice (calculatePrices e sl tp buy) \<and>
      takeProfitPrice (calculatePrices e sl tp sell) \<le> e \<and>
      e \<le> stopLossPrice (calculatePrices e sl tp sell)) \<and>
   (binary64 e \<and> pow2 (- 1022) \<le> e \<and> 100 * pow2 (- 52) \<le> sl \<and> 100 * pow2 (- 52) \<le> tp \<longrightarrow>
      stopLossPrice (calculatePrices e sl tp buy) < e \<and>
      e < takeProfitPrice (calculatePrices e sl tp buy) \<and>
      takeProfitPrice (calculatePrices e sl tp sell) < e \<and>
      e < stopLossPrice (calculatePrices e sl tp sell))"
proof (intro conjI impI)
  show "stopLossPrice (calculatePrices e sl tp buy) = fmul e (fsub 1 (fdiv sl 100))"
    and "takeProfitPrice (calculatePrices e sl tp buy) = fmul e (fadd 1 (fdiv tp 100))"
    and "stopLossPrice (calculatePrices e sl tp sell) = fmul e (fadd 1 (fdiv sl 100))"
    and "takeProfitPrice (calculatePrices e sl tp sell) = fmul e (fsub 1 (fdiv tp 100))"
    by (simp_all add: calculatePrices_def)
next
  assume h: "binary64 e \<and> 0 < e \<and> 0 < sl \<and> 0 < tp"
  then have b: "binary64 e" and e: "0 \<le> e" and s: "0 \<le> sl" and t: "0 \<le> tp" by simp_all
  show "stopLossPrice (calculatePrices e sl tp buy) \<le> e"
    using price_below[OF b e s] by (simp add: calculatePrices_def)
  show "e \<le> takeProfitPrice (calculatePrices e sl tp buy)"
    using price_above[OF b e t] by (simp add: calculatePrices_def)
  show "takeProfitPrice (calculatePrices e sl tp sell) \<le> e"
    using price_below[OF b e t] by (simp add: calculatePrices_def)
  show "e \<le> stopLossPrice (calculatePrices e sl tp sell)"
    using price_above[OF b e s] by (simp add: calculatePrices_def)
next
  assume h: "binary64 e \<and> pow2 (- 1022) \<le> e \<and> 100 * pow2 (- 52) \<le> sl \<and> 100 * pow2 (- 52) \<le> tp"
  then have b: "binary64 e" and n: "pow2 (- 1022) \<le> e"
    and s: "100 * pow2 (- 52) \<le> sl" and t: "100 * pow2 (- 52) \<le> tp" by simp_all
  show "stopLossPrice (calculatePrices e sl tp buy) < e"
    using price_strictly_below[OF b n s] by (simp add: calculatePrices_def)
  show "e < takeProfitPrice (calculatePrices e sl tp buy)"
    using price_strictly_above[OF b n t] by (simp add: calculatePrices_def)
  show "takeProfitPrice (calculatePrices e sl tp sell) < e"
    using price_strictly_below[OF b n t] by (simp add: calculatePrices_def)
  show "e < stopLossPrice (calculatePrices e sl tp sell)"
    using price_strictly_above[OF b n s] by (simp add: calculatePrices_def)
qed

text \<open>Scenarios A and B: 150 at 2 and 5 percent, long; 200 at 3 and 4 percent, short.\<close>

theorem calculatePrices_thresholds_witness:
  "binary64 150 \<and> pow2 (- 1022) \<le> 150 \<and> 100 * pow2 (- 52) \<le> 2 \<and> 100 * pow2 (- 52) \<le> 5 \<and>
   stopLossPrice (calculatePrices 150 2 5 buy) = 147 \<and>
   takeProfitPrice (calculatePrices 150 2 5 buy) = 157.5 \<and>
   stopLossPrice (calculatePrices 150 2 5 buy) < 150 \<and>
   150 < takeProfitPrice (calculatePrices 150 2 5 buy) \<and>
   binary64 200 \<and> pow2 (- 1022) \<le> 200 \<and> 100 * pow2 (- 52) \<le> 3 \<and> 100 * pow2 (- 52) \<le> 4 \<and>
   stopLossPrice (calculatePrices 200 3 4 sell) = 206 \<and>
   takeProfitPrice (calculatePrices 200 3 4 sell) = 192 \<and>
   takeProfitPrice (calculatePrices 200 3 4 sell) < 200 \<and>
   200 < stopLossPrice (calculatePrices 200 3 4 sell)"
proof -
  have h1: "binary64 150 \<and> pow2 (- 1022) \<le> 150 \<and> 100 * pow2 (- 52) \<le> 2 \<and> 100 * pow2 (- 52) \<le> 5"
    using binary64_150 by (simp add: pow2_def)
  have h2: "binary64 200 \<and> pow2 (- 1022) \<le> 200 \<and> 100 * pow2 (- 52) \<le> 3 \<and> 100 * pow2 (- 52) \<le> 4"
    using binary64_200 by (simp add: pow2_def)
  note a = calculatePrices_thresholds[of 150 2 5]
  note b = calculatePrices_thresholds[of 200 3 4]
  have v: "stopLossPrice (calculatePrices 150 2 5 buy) = 147"
          "takeProfitPrice (calculatePrices 150 2 5 buy) = 157.5"
          "stopLossPrice (calculatePrices 200 3 4 sell) = 206"
          "takeProfitPrice (calculatePrices 200 3 4 sell) = 192"
    using a b by (simp_all add: stop_150_2 profit_150_5 stop_200_3 profit_200_4)
  have s1: "stopLossPrice (calculatePrices 150 2 5 buy) < 150 \<and>
            150 < takeProfitPrice (calculatePrices 150 2 5 buy)"
    using a h1 by blast
  have s2: "takeProfitPrice (calculatePrices 200 3 4 sell) < 200 \<and>
            200 < stopLossPrice (calculatePrices 200 3 4 sell)"
    using b h2 by blast
  show ?thesis using h1 h2 v s1 s2 by blast
qed

text \<open>
  As the specification states it, with strict inequalities for all positive inputs, the
  property fails: for the entry price 150 and both percentages 1e-15 (a positive number,
  here the binary64 number nearest to it), 1 - 1e-17 and 1 + 1e-17 round to 1 and both
  thresholds equal the entry price.
\<close>

theorem calculatePrices_strict_counterexample:
  "binary64 150 \<and> binary64 tiny_pct \<and> 0 < tiny_pct \<and>
   stopLossPrice (calculatePrices 150 tiny_pct tiny_pct buy) = 150 \<and>
   takeProfitPrice (calculatePrices 150 tiny_pct tiny_pct buy) = 150"
  using binary64_150 tiny_pct_binary64 tiny_pct_positive
  by (simp add: calculatePrices_def stop_150_tiny profit_150_tiny)

subsection \<open>The trailing stop\<close>

lemma adjust_all_snoc:
  "adjust_all w i (cs @ [c]) = fst (updateTrailingStop (adjust_all w i cs) i c)"
  by (induction cs arbitrary: w) simp_all

lemma trailing_max:
  assumes g: "getManagedPosition w i = Some p"
  shows "\<exists>q. getManagedPosition (fst (updateTrailingStop w i c)) i = Some q \<and>
             stop_loss_price q = max (stop_loss_price p) (fmul c (fsub 1 (fdiv (stop_loss_pct p) 100))) \<and>
             stop_loss_pct q = stop_loss_pct p"
  using trailing_row(2)[OF g, of c] by (simp add: max_def)

lemma adjust_all_monotone:
  "getManagedPosition w i = Some p \<Longrightarrow>
   \<exists>q. getManagedPosition (adjust_all w i cs) i = Some q \<and> stop_loss_price p \<le> stop_loss_price q"
proof (induction cs arbitrary: w p)
  case Nil
  then show ?case by simp
next
  case (Cons c cs)
  from trailing_max[OF Cons.prems, of c] obtain q1 where
    g: "getManagedPosition (fst (updateTrailingStop w i c)) i = Some q1"
    and m: "stop_loss_price p \<le> stop_loss_price q1" by auto
  from Cons.IH[OF g] obtain q where
    q: "getManagedPosition (adjust_all (fst (updateTrailingStop w i c)) i cs) i = Some q"
       "stop_loss_price q1 \<le> stop_loss_price q" by blast
  with m show ?case by (metis adjust_all.simps(2) order_trans)
qed

text \<open>
  C4 (as amended). updateTrailingStop computes the candidate
  currentPrice * (1 - stop_loss_pct/100) and stores it only when it exceeds the stored
  stop-loss price; otherwise it writes nothing and leaves the state as it was. Hence
  along any sequence of calls the stored stop-loss price never decreases. When the
  stop-loss percentage is at most 100, the candidate does not decrease as the price
  rises: a call at a price no higher than that of the call before leaves the state
  unchanged, and a call at a price no lower leaves the stop at the largest of the
  stored stop and the two candidates.
\<close>

theorem updateTrailingStop_ratchet:
  assumes "getManagedPosition w i = Some p"
  shows "(stop_loss_price p < fmul c (fsub 1 (fdiv (stop_loss_pct p) 100)) \<longrightarrow>
            getManagedPosition (fst (updateTrailingStop w i c)) i =
              Some (p\<lparr>stop_loss_price := fmul c (fsub 1 (fdiv (stop_loss_pct p) 100)),
                     updated_at := now w\<rparr>)) \<and>
         (\<not> stop_loss_price p < fmul c (fsub 1 (fdiv (stop_loss_pct p) 100)) \<longrightarrow>
            updateTrailingStop w i c = (w, Inr ())) \<and>
         (\<exists>q q'. getManagedPosition (adjust_all w i cs) i = Some q \<and>
                 getManagedPosition (adjust_all w i (cs @ [c'])) i = Some q' \<and>
                 stop_loss_price p \<le> stop_loss_price q \<and>
                 stop_loss_price q \<le> stop_loss_price q') \<and>
         (stop_loss_pct p \<le> 100 \<and> c2 \<le> c1 \<longrightarrow>
            updateTrailingStop (fst (updateTrailingStop w i c1)) i c2 =
              (fst (updateTrailingStop w i c1), Inr ())) \<and>
         (stop_loss_pct p \<le> 100 \<and> c1 \<le> c2 \<longrightarrow>
            fmul c1 (fsub 1 (fdiv (stop_loss_pct p) 100))
              \<le> fmul c2 (fsub 1 (fdiv (stop_loss_pct p) 100)) \<and>
            (\<exists>q. getManagedPosition (fst (updateTrailingStop (fst (updateTrailingStop w i c1)) i c2)) i
                   = Some q \<and>
                 stop_loss_price q =
                   max (max (stop_loss_price p) (fmul c1 (fsub 1 (fdiv (stop_loss_pct p) 100))))
                       (fmul c2 (fsub 1 (fdiv (stop_loss_pct p) 100)))))"
proof (intro conjI impI)
  show "getManagedPosition (fst (updateTrailingStop w i c)) i =
          Some (p\<lparr>stop_loss_price := fmul c (fsub 1 (fdiv (stop_loss_pct p) 100)),
                 updated_at := now w\<rparr>)"
    if "stop_loss_price p < fmul c (fsub 1 (fdiv (stop_loss_pct p) 100))"
    using trailing_row(2)[OF assms, of c] that by simp
  show "updateTrailingStop w i c = (w, Inr ())"
    if "\<not> stop_loss_price p < fmul c (fsub 1 (fdiv (stop_loss_pct p) 100))"
    using trailing_row(3)[OF assms, of c] that by simp
  from adjust_all_monotone[OF assms, of cs] obtain q where
    q: "getManagedPosition (adjust_all w i cs) i = Some q" "stop_loss_price p \<le> stop_loss_price q"
    by blast
  from adjust_all_monotone[OF q(1), of "[c']"] obtain q' where
    q': "getManagedPosition (adjust_all w i (cs @ [c'])) i = Some q'" "stop_loss_price q \<le> stop_loss_price q'"
    by (auto simp: adjust_all_snoc)
  show "\<exists>q q'. getManagedPosition (adjust_all w i cs) i = Some q \<and>
                 getManagedPosition (adjust_all w i (cs @ [c'])) i = Some q' \<and>
                 stop_loss_price p \<le> stop_loss_price q \<and>
                 stop_loss_price q \<le> stop_loss_price q'"
    using q q' by blast
next
  assume h: "stop_loss_pct p \<le> 100 \<and> c2 \<le> c1"
  from trailing_max[OF assms, of c1] obtain q1 where
    q1: "getManagedPosition (fst (updateTrailingStop w i c1)) i = Some q1"
        "stop_loss_price q1 = max (stop_loss_price p) (fmul c1 (fsub 1 (fdiv (stop_loss_pct p) 100)))"
        "stop_loss_pct q1 = stop_loss_pct p" by blast
  have "fmul c2 (fsub 1 (fdiv (stop_loss_pct p) 100)) \<le> fmul c1 (fsub 1 (fdiv (stop_loss_pct p) 100))"
    using h by (simp add: candidate_mono)
  then have "\<not> stop_loss_price q1 < fmul c2 (fsub 1 (fdiv (stop_loss_pct q1) 100))"
    using q1(2,3) by simp
  then show "updateTrailingStop (fst (updateTrailingStop w i c1)) i c2 =
              (fst (updateTrailingStop w i c1), Inr ())"
    using trailing_row(3)[OF q1(1), of c2] by simp
next
  assume h: "stop_loss_pct p \<le> 100 \<and> c1 \<le> c2"
  then show "fmul c1 (fsub 1 (fdiv (stop_loss_pct p) 100))
              \<le> fmul c2 (fsub 1 (fdiv (stop_loss_pct p) 100))"
    by (simp add: candidate_mono)
  from trailing_max[OF assms, of c1] obtain q1 where
    q1: "getManagedPosition (fst (updateTrailingStop w i c1)) i = Some q1"
        "stop_loss_price q1 = max (stop_loss_price p) (fmul c1 (fsub 1 (fdiv (stop_loss_pct p) 100)))"
        "stop_loss_pct q1 = stop_loss_pct p" by blast
  from trailing_max[OF q1(1), of c2] q1(2,3)
  show "\<exists>q. getManagedPosition (fst (updateTrailingStop (fst (updateTrailingStop w i c1)) i c2)) i
                   = Some q \<and>
                 stop_loss_price q =
                   max (max (stop_loss_price p) (fmul c1 (fsub 1 (fdiv (stop_loss_pct p) 100))))
                       (fmul c2 (fsub 1 (fdiv (stop_loss_pct p) 100)))"
    by auto
qed

lemma long_alone: "getManagedPosition (world_of [pos_long]) ''p1'' = Some pos_long"
  by (simp add: getManagedPosition_def findUnique_def ex_defs)

theorem updateTrailingStop_ratchet_witness:
  "getManagedPosition (world_of [pos_long]) ''p1'' = Some pos_long \<and>
   stop_loss_price pos_long < fmul 160 (fsub 1 (fdiv (stop_loss_pct pos_long) 100)) \<and>
   map_option stop_loss_price
     (getManagedPosition (fst (updateTrailingStop (world_of [pos_long]) ''p1'' 160)) ''p1'')
     = Some (2758454771764429 / 2 ^ 44) \<and>
   \<not> stop_loss_price pos_long < fmul 140 (fsub 1 (fdiv (stop_loss_pct pos_long) 100)) \<and>
   updateTrailingStop (world_of [pos_long]) ''p1'' 140 = (world_of [pos_long], Inr ()) \<and>
   stop_loss_pct pos_long \<le> 100 \<and> (155::real) \<le> 160 \<and>
   updateTrailingStop (fst (updateTrailingStop (world_of [pos_long]) ''p1'' 160)) ''p1'' 155 =
     (fst (updateTrailingStop (world_of [pos_long]) ''p1'' 160), Inr ()) \<and>
   (150::real) \<le> 160 \<and>
   fmul 150 (fsub 1 (fdiv (stop_loss_pct pos_long) 100))
     \<le> fmul 160 (fsub 1 (fdiv (stop_loss_pct pos_long) 100))"
proof -
  have v: "stop_loss_price pos_long = 147" "stop_loss_pct pos_long = 2"
    by (simp_all add: pos_long_def)
  have up: "stop_loss_price pos_long < fmul 160 (fsub 1 (fdiv (stop_loss_pct pos_long) 100))"
    and down: "\<not> stop_loss_price pos_long < fmul 140 (fsub 1 (fdiv (stop_loss_pct pos_long) 100))"
    by (simp_all add: v stop_160_2 stop_140_2)
  have c: "fmul 160 (fsub 1 (fdiv (stop_loss_pct pos_long) 100)) = 2758454771764429 / 2 ^ 44"
    by (simp only: v stop_160_2)
  note a = updateTrailingStop_ratchet[OF long_alone, where c = 160, THEN conjunct1, rule_format, OF up]
  note b = updateTrailingStop_ratchet[OF long_alone, where c = 140, THEN conjunct2, THEN conjunct1,
             rule_format, OF down]
  have h: "stop_loss_pct pos_long \<le> 100 \<and> (155::real) \<le> 160" by (simp add: v)
  note d = updateTrailingStop_ratchet[OF long_alone, where ?c1.0 = 160 and ?c2.0 = 155,
             THEN conjunct2, THEN conjunct2, THEN conjunct2, THEN conjunct1, rule_format, OF h]
  have h': "stop_loss_pct pos_long \<le> 100 \<and> (150::real) \<le> 160" by (simp add: v)
  note e = updateTrailingStop_ratchet[OF long_alone, where ?c1.0 = 150 and ?c2.0 = 160,
             THEN conjunct2, THEN conjunct2, THEN conjunct2, THEN conjunct2, rule_format, OF h',
             THEN conjunct1]
  have a': "map_option stop_loss_price
     (getManagedPosition (fst (updateTrailingStop (world_of [pos_long]) ''p1'' 160)) ''p1'')
     = Some (2758454771764429 / 2 ^ 44)"
    by (simp only: a c) simp
  show ?thesis
    using long_alone up a' down b h d e by simp
qed

text \<open>
  Scenario E: entry 150, 2 percent, prices 150, 160, 155 give the stops 147, 156.8, 156.8
  (156.8 being the binary64 number nearest to it).
\<close>

lemma nearest_to_156_8: "fl (1568 / 10) = 2758454771764429 / 2 ^ 44"
  by (subst fl_eval[where k = "7"]) (simp_all add: pow2_def round_even_def Let_def)

lemma scenario_E:
  "map stop_loss_price (rows (adjust_all (world_of [pos_long]) ''p1'' [150])) = [147] \<and>
   map stop_loss_price (rows (adjust_all (world_of [pos_long]) ''p1'' [150, 160]))
     = [2758454771764429 / 2 ^ 44] \<and>
   map stop_loss_price (rows (adjust_all (world_of [pos_long]) ''p1'' [150, 160, 155]))
     = [2758454771764429 / 2 ^ 44]"
  by (simp add: updateTrailingStop_def getManagedPosition_def findUnique_def prisma_update_def
        logger_def ex_defs stop_150_2 stop_160_2 stop_155_2)

text \<open>
  As the specification states it, without a bound on the percentage, the property fails:
  with a stop-loss percentage of 150, which the service accepts, the candidate is
  -0.5 times the price, and when the price falls from 152 to 100 the stored stop moves
  from -76 to -50.
\<close>

theorem updateTrailingStop_falling_price_counterexample:
  "getManagedPosition (world_of [pos_wide]) ''p5'' = Some pos_wide \<and>
   stop_loss_pct pos_wide = 150 \<and> (100::real) < 152 \<and>
   map stop_loss_price (rows (adjust_all (world_of [pos_wide]) ''p5'' [152])) = [- 76] \<and>
   map stop_loss_price (rows (adjust_all (world_of [pos_wide]) ''p5'' [152, 100])) = [- 50]"
  by (simp add: updateTrailingStop_def getManagedPosition_def findUnique_def prisma_update_def
        logger_def ex_defs stop_152_150 stop_100_150)

subsection \<open>Closing on a failing gateway\<close>

text \<open>
  C5. When the gateway's close call fails for an existing position, closeManagedPosition
  re-raises that error, and the stored record has status error and a closed reason that
  carries the failure message; its status is not closed and its exit-order reference is
  what it was before (none is set).
\<close>

theorem closeManagedPosition_gateway_failure:
  assumes "getManagedPosition w i = Some p"
      and "closePosition env (now w) (symbol p) = Inl e"
  shows "snd (closeManagedPosition env w i rsn cp) = Inl e \<and>
         getManagedPosition (fst (closeManagedPosition env w i rsn cp)) i =
           Some (p\<lparr>status := Error, closed_reason := Some (''Error: '' @ message e),
                  updated_at := Suc (now w)\<rparr>) \<and>
         map_option status (getManagedPosition (fst (closeManagedPosition env w i rsn cp)) i)
           = Some Error \<and>
         map_option exit_order_id (getManagedPosition (fst (closeManagedPosition env w i rsn cp)) i)
           = Some (exit_order_id p)"
  using close_fail[OF assms, of rsn cp] by simp

theorem closeManagedPosition_gateway_failure_witness:
  "getManagedPosition (world_of [pos_long]) ''p1'' = Some pos_long \<and>
   closePosition env_close_fails (now (world_of [pos_long])) (symbol pos_long)
     = Inl (JsError ''Close failed'') \<and>
   snd (closeManagedPosition env_close_fails (world_of [pos_long]) ''p1''
          ''manual_close'' None) = Inl (JsError ''Close failed'') \<and>
   map_option status (getManagedPosition (fst (closeManagedPosition env_close_fails
          (world_of [pos_long]) ''p1'' ''manual_close'' None)) ''p1'') = Some Error \<and>
   map_option closed_reason (getManagedPosition (fst (closeManagedPosition env_close_fails
          (world_of [pos_long]) ''p1'' ''manual_close'' None)) ''p1'') = Some (Some ''Error: Close failed'') \<and>
   map_option exit_order_id (getManagedPosition (fst (closeManagedPosition env_close_fails
          (world_of [pos_long]) ''p1'' ''manual_close'' None)) ''p1'') = Some None"
proof -
  have g: "getManagedPosition (world_of [pos_long]) ''p1'' = Some pos_long"
    by (simp add: getManagedPosition_def findUnique_def ex_defs)
  have c: "closePosition env_close_fails (now (world_of [pos_long])) (symbol pos_long)
     = Inl (JsError ''Close failed'')"
    by (simp add: ex_defs)
  have x: "exit_order_id pos_long = None" by (simp add: pos_long_def)
  show ?thesis
    using closeManagedPosition_gateway_failure[OF g c, of "''manual_close''" None] g c x
    by simp
qed

subsection \<open>Outcomes of one evaluation\<close>

lemma or_num_Some [simp]: "c \<noteq> 0 \<Longrightarrow> or_num (Some c) x = c"
  by (simp add: or_num_def)

lemma sample_fail_200:
  "getSnapshot env_at_200_fails t s = Inr \<lparr>latestTrade_p = Some 200, latestQuote_ap = None\<rparr>"
  "closePosition env_at_200_fails t s = Inl (JsError ''Close failed'')"
  by (simp_all add: ex_defs)

lemma price_of_trade [simp]:
  "c \<noteq> 0 \<Longrightarrow> price_of \<lparr>latestTrade_p = Some c, latestQuote_ap = a\<rparr> = Some c"
  by (simp add: price_of_def js_or_def)

lemma monitor_close_ok:
  assumes g: "getManagedPosition w i = Some p" and a: "status p = Active \<or> status p = Monitoring"
      and s: "getSnapshot env (now w) (symbol p) = Inr snap"
      and c: "price_of snap = Some c" "c \<noteq> 0"
      and o: "closePosition env (Suc (now w)) (symbol p) = Inr ord"
  shows "c \<le> stop_loss_price p \<Longrightarrow>
           snd (monitorPosition env w i) =
             Inr \<lparr>triggered = True, reason = Some ''stop_loss'', action = Some ''closed''\<rparr> \<and>
           getManagedPosition (fst (monitorPosition env w i)) i =
             Some (closed_as (priced p (Suc (now w)) c) ''stop_loss_triggered'' c (order_id ord) (Suc (Suc (now w))))"
    and "\<not> c \<le> stop_loss_price p \<Longrightarrow> take_profit_price p \<le> c \<Longrightarrow>
           snd (monitorPosition env w i) =
             Inr \<lparr>triggered = True, reason = Some ''take_profit'', action = Some ''closed''\<rparr> \<and>
           getManagedPosition (fst (monitorPosition env w i)) i =
             Some (closed_as (priced p (Suc (now w)) c) ''take_profit_triggered'' c (order_id ord) (Suc (Suc (now w))))"
proof -
  let ?w2 = "fst (updateManagedPosition (called (GetSnapshot (symbol p)) w) i c)"
  have c': "js_or (latestTrade_p snap) (latestQuote_ap snap) = Some c" using c(1) by (simp add: price_of_def)
  note m = monitor_priced[OF g a s c' c(2)]
  have g2: "\<And>l msg. getManagedPosition (logger l msg ?w2) i = Some (priced p (Suc (now w)) c)"
    using after_update(1)[OF g, of "GetSnapshot (symbol p)" c] by simp
  have o2: "\<And>l msg. closePosition env (now (logger l msg ?w2)) (symbol (priced p (Suc (now w)) c)) = Inr ord"
    using o after_update(2)[OF g, of "GetSnapshot (symbol p)" c] by (simp add: priced_def)
  have n2: "\<And>l msg. now (logger l msg ?w2) = Suc (now w)"
    using after_update(2)[OF g, of "GetSnapshot (symbol p)" c] by simp
  {
    assume sl: "c \<le> stop_loss_price p"
    show "snd (monitorPosition env w i) =
             Inr \<lparr>triggered = True, reason = Some ''stop_loss'', action = Some ''closed''\<rparr> \<and>
           getManagedPosition (fst (monitorPosition env w i)) i =
             Some (closed_as (priced p (Suc (now w)) c) ''stop_loss_triggered'' c (order_id ord) (Suc (Suc (now w))))"
      using close_ok[OF g2[of Warn "''Stop-loss triggered''"] o2[of Warn "''Stop-loss triggered''"], of "''stop_loss_triggered''" "Some c"]
            close_ok_row[OF g2[of Warn "''Stop-loss triggered''"] o2[of Warn "''Stop-loss triggered''"], of "''stop_loss_triggered''" "Some c"]
            c(2) n2[of Warn "''Stop-loss triggered''"] n2[of Info "''Take-profit triggered''"]
      by (simp add: m check_stop_loss[OF sl] closed_as_def)
  }
  {
    assume sl: "\<not> c \<le> stop_loss_price p" and tp: "take_profit_price p \<le> c"
    show "snd (monitorPosition env w i) =
             Inr \<lparr>triggered = True, reason = Some ''take_profit'', action = Some ''closed''\<rparr> \<and>
           getManagedPosition (fst (monitorPosition env w i)) i =
             Some (closed_as (priced p (Suc (now w)) c) ''take_profit_triggered'' c (order_id ord) (Suc (Suc (now w))))"
      using close_ok[OF g2[of Info "''Take-profit triggered''"] o2[of Info "''Take-profit triggered''"], of "''take_profit_triggered''" "Some c"]
            close_ok_row[OF g2[of Info "''Take-profit triggered''"] o2[of Info "''Take-profit triggered''"], of "''take_profit_triggered''" "Some c"]
            c(2) n2[of Warn "''Stop-loss triggered''"] n2[of Info "''Take-profit triggered''"]
      by (simp add: m check_take_profit[OF sl tp] closed_as_def)
  }
qed

lemma monitor_close_fails:
  assumes g: "getManagedPosition w i = Some p" and a: "status p = Active \<or> status p = Monitoring"
      and s: "getSnapshot env (now w) (symbol p) = Inr snap"
      and c: "price_of snap = Some c" "c \<noteq> 0"
      and o: "closePosition env (Suc (now w)) (symbol p) = Inl e"
      and t: "c \<le> stop_loss_price p \<or> take_profit_price p \<le> c"
  shows "snd (monitorPosition env w i) = Inl e \<and>
         getManagedPosition (fst (monitorPosition env w i)) i =
           Some ((priced p (Suc (now w)) c)\<lparr>status := Error,
                   closed_reason := Some (''Error: '' @ message e), updated_at := Suc (Suc (now w))\<rparr>)"
proof -
  let ?w2 = "fst (updateManagedPosition (called (GetSnapshot (symbol p)) w) i c)"
  have c': "js_or (latestTrade_p snap) (latestQuote_ap snap) = Some c" using c(1) by (simp add: price_of_def)
  note m = monitor_priced[OF g a s c' c(2)]
  have g2: "\<And>l msg. getManagedPosition (logger l msg ?w2) i = Some (priced p (Suc (now w)) c)"
    using after_update(1)[OF g, of "GetSnapshot (symbol p)" c] by simp
  have o2: "\<And>l msg. closePosition env (now (logger l msg ?w2)) (symbol (priced p (Suc (now w)) c)) = Inl e"
    using o after_update(2)[OF g, of "GetSnapshot (symbol p)" c] by (simp add: priced_def)
  have n2: "\<And>l msg. now (logger l msg ?w2) = Suc (now w)"
    using after_update(2)[OF g, of "GetSnapshot (symbol p)" c] by simp
  show ?thesis
  proof (cases "c \<le> stop_loss_price p")
    case True
    show ?thesis
      using close_fail[OF g2[of Warn "''Stop-loss triggered''"] o2[of Warn "''Stop-loss triggered''"], of "''stop_loss_triggered''" "Some c"] n2[of Warn "''Stop-loss triggered''"] n2[of Info "''Take-profit triggered''"]
      by (auto simp: m check_stop_loss[OF True] split: prod.splits sum.splits)
  next
    case False
    then have tp: "take_profit_price p \<le> c" using t by simp
    show ?thesis
      using close_fail[OF g2[of Info "''Take-profit triggered''"] o2[of Info "''Take-profit triggered''"], of "''take_profit_triggered''" "Some c"] n2[of Warn "''Stop-loss triggered''"] n2[of Info "''Take-profit triggered''"]
      by (auto simp: m check_take_profit[OF False tp] split: prod.splits sum.splits)
  qed
qed

lemma monitor_no_trigger:
  assumes g: "getManagedPosition w i = Some p" and a: "status p = Active \<or> status p = Monitoring"
      and s: "getSnapshot env (now w) (symbol p) = Inr snap"
      and c: "price_of snap = Some c" "c \<noteq> 0"
      and n: "\<not> c \<le> stop_loss_price p" "\<not> take_profit_price p \<le> c"
  shows "snd (monitorPosition env w i) = Inr not_triggered \<and>
         map_option status (getManagedPosition (fst (monitorPosition env w i)) i) = Some (status p)"
proof -
  let ?w2 = "fst (updateManagedPosition (called (GetSnapshot (symbol p)) w) i c)"
  have c': "js_or (latestTrade_p snap) (latestQuote_ap snap) = Some c" using c(1) by (simp add: price_of_def)
  note m = monitor_priced[OF g a s c' c(2)]
  have g2: "getManagedPosition ?w2 i = Some (priced p (Suc (now w)) c)"
    using after_update(1)[OF g, of "GetSnapshot (symbol p)" c] by simp
  show ?thesis
    using trailing_row(1,2)[OF g2, of c] g2
    by (auto simp: m check_none[OF n] priced_def split: prod.splits sum.splits)
qed

lemma long_row: "getManagedPosition (world_of [pos_long]) ''p1'' = Some pos_long"
  by (simp add: getManagedPosition_def findUnique_def ex_defs)

lemma short_row: "getManagedPosition (world_of [pos_short]) ''p2'' = Some pos_short"
  by (simp add: getManagedPosition_def findUnique_def ex_defs)

lemma done_row: "getManagedPosition (world_of [pos_done]) ''p3'' = Some pos_done"
  by (simp add: getManagedPosition_def findUnique_def ex_defs)

lemma long_active: "status pos_long = Active \<or> status pos_long = Monitoring"
  by (simp add: pos_long_def)

lemma short_active: "status pos_short = Active \<or> status pos_short = Monitoring"
  by (simp add: pos_short_def)

lemma sample_snapshots:
  "getSnapshot env_drop t s = Inr \<lparr>latestTrade_p = Some 145, latestQuote_ap = None\<rparr>"
  "getSnapshot env_close_fails t s = Inr \<lparr>latestTrade_p = Some 145, latestQuote_ap = None\<rparr>"
  "getSnapshot env_rise t s = Inr \<lparr>latestTrade_p = Some 160, latestQuote_ap = None\<rparr>"
  "getSnapshot env_calm t s = Inr \<lparr>latestTrade_p = Some 152, latestQuote_ap = None\<rparr>"
  "getSnapshot env_at_200 t s = Inr \<lparr>latestTrade_p = Some 200, latestQuote_ap = None\<rparr>"
  by (simp_all add: ex_defs)

lemma sample_closes:
  "closePosition env_drop t s = Inr \<lparr>order_id = ''close-order-123'', filled_avg_price = None\<rparr>"
  "closePosition env_rise t s = Inr \<lparr>order_id = ''close-order-123'', filled_avg_price = None\<rparr>"
  "closePosition env_calm t s = Inr \<lparr>order_id = ''close-order-123'', filled_avg_price = None\<rparr>"
  "closePosition env_at_200 t s = Inr \<lparr>order_id = ''close-order-123'', filled_avg_price = None\<rparr>"
  "closePosition env_close_fails t s = Inl (JsError ''Close failed'')"
  by (simp_all add: ex_defs)

subsection \<open>A failing price provider\<close>

text \<open>
  C2 (as amended). For a position whose status is active or monitoring: when the price
  provider answers with a snapshot that carries no usable price (no trade price and no
  ask price, or zero), monitorPosition logs a warning, writes nothing to the store and
  returns triggered = false; when the provider throws, monitorPosition logs the error and
  re-raises it to its caller, again without a store write.
\<close>

theorem monitorPosition_provider_failure:
  assumes "getManagedPosition w i = Some p"
      and "status p = Active \<or> status p = Monitoring"
  shows "(getSnapshot env (now w) (symbol p) = Inr snap \<and> \<not> truthy (price_of snap) \<longrightarrow>
            monitorPosition env w i =
              (logger Warn ''No current price available for position''
                 (called (GetSnapshot (symbol p)) w), Inr not_triggered)) \<and>
         (getSnapshot env (now w) (symbol p) = Inl e \<longrightarrow>
            monitorPosition env w i =
              (logger Err ''Failed to monitor position'' (called (GetSnapshot (symbol p)) w), Inl e))"
  using monitor_no_price[OF assms, of env snap] monitor_throw[OF assms, of env e]
  by (simp add: price_of_def)

theorem monitorPosition_provider_failure_witness:
  "getManagedPosition (world_of [pos_long]) ''p1'' = Some pos_long \<and>
   (status pos_long = Active \<or> status pos_long = Monitoring) \<and>
   getSnapshot env_no_price (now (world_of [pos_long])) (symbol pos_long)
     = Inr \<lparr>latestTrade_p = None, latestQuote_ap = None\<rparr> \<and>
   \<not> truthy (price_of \<lparr>latestTrade_p = None, latestQuote_ap = None\<rparr>) \<and>
   monitorPosition env_no_price (world_of [pos_long]) ''p1'' =
     (logger Warn ''No current price available for position''
        (called (GetSnapshot (symbol pos_long)) (world_of [pos_long])), Inr not_triggered) \<and>
   getSnapshot env_fetch_throws (now (world_of [pos_long])) (symbol pos_long) = Inl (JsError ''timeout'') \<and>
   monitorPosition env_fetch_throws (world_of [pos_long]) ''p1'' =
     (logger Err ''Failed to monitor position''
        (called (GetSnapshot (symbol pos_long)) (world_of [pos_long])), Inl (JsError ''timeout''))"
proof -
  have a: "status pos_long = Active \<or> status pos_long = Monitoring" by (simp add: pos_long_def)
  have s1: "getSnapshot env_no_price (now (world_of [pos_long])) (symbol pos_long)
     = Inr \<lparr>latestTrade_p = None, latestQuote_ap = None\<rparr>" by (simp add: ex_defs)
  have n1: "\<not> truthy (price_of \<lparr>latestTrade_p = None, latestQuote_ap = None\<rparr>)"
    by (simp add: price_of_def js_or_def)
  have s2: "getSnapshot env_fetch_throws (now (world_of [pos_long])) (symbol pos_long) = Inl (JsError ''timeout'')"
    by (simp add: ex_defs)
  show ?thesis
    using monitorPosition_provider_failure[OF long_row a, where env = env_no_price
            and snap = "\<lparr>latestTrade_p = None, latestQuote_ap = None\<rparr>"]
          monitorPosition_provider_failure[OF long_row a, where env = env_fetch_throws
            and e = "JsError ''timeout''"]
          long_row a s1 n1 s2
    by simp
qed

text \<open>
  As the specification states it, the property fails: with a provider that throws, the
  evaluation of an active position raises.
\<close>

theorem monitorPosition_provider_throws_counterexample:
  "getManagedPosition (world_of [pos_long]) ''p1'' = Some pos_long \<and>
   status pos_long = Active \<and>
   getSnapshot env_fetch_throws (now (world_of [pos_long])) (symbol pos_long) = Inl (JsError ''timeout'') \<and>
   snd (monitorPosition env_fetch_throws (world_of [pos_long]) ''p1'') = Inl (JsError ''timeout'')"
  by (simp add: monitorPosition_def monitorPosition_try_def long_row) (simp add: ex_defs)

subsection \<open>Threshold triggers\<close>

text \<open>
  C7 (as amended). For an active or monitoring position and an available, nonzero current
  price c: if c is at most the stop-loss price and the gateway's close succeeds,
  monitorPosition returns triggered = true, reason "stop_loss", action "closed", and the
  record ends with status closed, closed reason "stop_loss_triggered" and closed price c;
  if c is above the stop-loss price and at least the take-profit price and the close
  succeeds, the same holds with "take_profit" and "take_profit_triggered"; if c lies
  strictly between the two thresholds, it returns triggered = false and the status is
  unchanged; if a threshold is crossed and the gateway's close fails, monitorPosition
  re-raises the error and the record ends with status error.
\<close>

theorem monitorPosition_triggers:
  assumes "getManagedPosition w i = Some p"
      and "status p = Active \<or> status p = Monitoring"
      and "getSnapshot env (now w) (symbol p) = Inr snap"
      and "price_of snap = Some c" and "c \<noteq> 0"
  shows "(c \<le> stop_loss_price p \<and> closePosition env (Suc (now w)) (symbol p) = Inr ord \<longrightarrow>
            snd (monitorPosition env w i) =
              Inr \<lparr>triggered = True, reason = Some ''stop_loss'', action = Some ''closed''\<rparr> \<and>
            getManagedPosition (fst (monitorPosition env w i)) i =
              Some (closed_as (priced p (Suc (now w)) c) ''stop_loss_triggered'' c (order_id ord)
                      (Suc (Suc (now w))))) \<and>
         (\<not> c \<le> stop_loss_price p \<and> take_profit_price p \<le> c \<and>
          closePosition env (Suc (now w)) (symbol p) = Inr ord \<longrightarrow>
            snd (monitorPosition env w i) =
              Inr \<lparr>triggered = True, reason = Some ''take_profit'', action = Some ''closed''\<rparr> \<and>
            getManagedPosition (fst (monitorPosition env w i)) i =
              Some (closed_as (priced p (Suc (now w)) c) ''take_profit_triggered'' c (order_id ord)
                      (Suc (Suc (now w))))) \<and>
         (\<not> c \<le> stop_loss_price p \<and> \<not> take_profit_price p \<le> c \<longrightarrow>
            snd (monitorPosition env w i) = Inr not_triggered \<and>
            map_option status (getManagedPosition (fst (monitorPosition env w i)) i) = Some (status p)) \<and>
         ((c \<le> stop_loss_price p \<or> take_profit_price p \<le> c) \<and>
          closePosition env (Suc (now w)) (symbol p) = Inl e \<longrightarrow>
            snd (monitorPosition env w i) = Inl e \<and>
            map_option status (getManagedPosition (fst (monitorPosition env w i)) i) = Some Error)"
proof (intro conjI impI)
  assume h: "c \<le> stop_loss_price p \<and> closePosition env (Suc (now w)) (symbol p) = Inr ord"
  from monitor_close_ok(1)[OF assms, of ord] h
  show "snd (monitorPosition env w i) =
              Inr \<lparr>triggered = True, reason = Some ''stop_loss'', action = Some ''closed''\<rparr>"
    and "getManagedPosition (fst (monitorPosition env w i)) i =
              Some (closed_as (priced p (Suc (now w)) c) ''stop_loss_triggered'' c (order_id ord)
                      (Suc (Suc (now w))))"
    by simp_all
next
  assume h: "\<not> c \<le> stop_loss_price p \<and> take_profit_price p \<le> c \<and>
          closePosition env (Suc (now w)) (symbol p) = Inr ord"
  from monitor_close_ok(2)[OF assms, of ord] h
  show "snd (monitorPosition env w i) =
              Inr \<lparr>triggered = True, reason = Some ''take_profit'', action = Some ''closed''\<rparr>"
    and "getManagedPosition (fst (monitorPosition env w i)) i =
              Some (closed_as (priced p (Suc (now w)) c) ''take_profit_triggered'' c (order_id ord)
                      (Suc (Suc (now w))))"
    by simp_all
next
  assume h: "\<not> c \<le> stop_loss_price p \<and> \<not> take_profit_price p \<le> c"
  from monitor_no_trigger[OF assms] h
  show "snd (monitorPosition env w i) = Inr not_triggered"
    and "map_option status (getManagedPosition (fst (monitorPosition env w i)) i) = Some (status p)"
    by simp_all
next
  assume h: "(c \<le> stop_loss_price p \<or> take_profit_price p \<le> c) \<and>
          closePosition env (Suc (now w)) (symbol p) = Inl e"
  from monitor_close_fails[OF assms, of e] h
  show "snd (monitorPosition env w i) = Inl e"
    and "map_option status (getManagedPosition (fst (monitorPosition env w i)) i) = Some Error"
    by simp_all
qed

theorem monitorPosition_triggers_witness:
  "getManagedPosition (world_of [pos_long]) ''p1'' = Some pos_long \<and>
   (status pos_long = Active \<or> status pos_long = Monitoring) \<and>
   getSnapshot env_drop (now (world_of [pos_long])) (symbol pos_long)
     = Inr \<lparr>latestTrade_p = Some 145, latestQuote_ap = None\<rparr> \<and>
   price_of \<lparr>latestTrade_p = Some 145, latestQuote_ap = None\<rparr> = Some 145 \<and>
   145 \<le> stop_loss_price pos_long \<and>
   closePosition env_drop (Suc (now (world_of [pos_long]))) (symbol pos_long)
     = Inr \<lparr>order_id = ''close-order-123'', filled_avg_price = None\<rparr> \<and>
   snd (monitorPosition env_drop (world_of [pos_long]) ''p1'')
     = Inr \<lparr>triggered = True, reason = Some ''stop_loss'', action = Some ''closed''\<rparr> \<and>
   map_option status (getManagedPosition (fst (monitorPosition env_drop (world_of [pos_long]) ''p1'')) ''p1'')
     = Some Closed \<and>
   map_option closed_reason (getManagedPosition (fst (monitorPosition env_drop (world_of [pos_long]) ''p1'')) ''p1'')
     = Some (Some ''stop_loss_triggered'') \<and>
   snd (monitorPosition env_rise (world_of [pos_long]) ''p1'')
     = Inr \<lparr>triggered = True, reason = Some ''take_profit'', action = Some ''closed''\<rparr> \<and>
   map_option status (getManagedPosition (fst (monitorPosition env_rise (world_of [pos_long]) ''p1'')) ''p1'')
     = Some Closed \<and>
   snd (monitorPosition env_calm (world_of [pos_long]) ''p1'') = Inr not_triggered \<and>
   map_option status (getManagedPosition (fst (monitorPosition env_calm (world_of [pos_long]) ''p1'')) ''p1'')
     = Some Active \<and>
   snd (monitorPosition env_close_fails (world_of [pos_long]) ''p1'') = Inl (JsError ''Close failed'')"
proof -
  have c: "price_of \<lparr>latestTrade_p = Some 145, latestQuote_ap = None\<rparr> = Some 145"
          "price_of \<lparr>latestTrade_p = Some 160, latestQuote_ap = None\<rparr> = Some 160"
          "price_of \<lparr>latestTrade_p = Some 152, latestQuote_ap = None\<rparr> = Some 152"
    by simp_all
  have v: "stop_loss_price pos_long = 147" "take_profit_price pos_long = 157.5"
          "status pos_long = Active"
    by (simp_all add: pos_long_def)
  note d = monitorPosition_triggers[OF long_row long_active sample_snapshots(1) c(1),
             where ord = "\<lparr>order_id = ''close-order-123'', filled_avg_price = None\<rparr>"]
  note r = monitorPosition_triggers[OF long_row long_active sample_snapshots(3) c(2),
             where ord = "\<lparr>order_id = ''close-order-123'', filled_avg_price = None\<rparr>"]
  note m = monitorPosition_triggers[OF long_row long_active sample_snapshots(4) c(3)]
  note f = monitorPosition_triggers[OF long_row long_active sample_snapshots(2) c(1),
             where e = "JsError ''Close failed''"]
  show ?thesis
    using d r m f long_row long_active c(1) v
    by (simp add: sample_snapshots sample_closes closed_as_def)
qed

text \<open>
  As the specification states it, the property fails twice: on a failing gateway a crossed
  stop-loss ends in an error, not in a closed record; and a short position whose price is
  between its take-profit and its stop-loss price is closed for "stop_loss", not for
  "take_profit".
\<close>

theorem monitorPosition_triggers_counterexample:
  "getManagedPosition (world_of [pos_long]) ''p1'' = Some pos_long \<and>
   status pos_long = Active \<and>
   getSnapshot env_close_fails (now (world_of [pos_long])) (symbol pos_long)
     = Inr \<lparr>latestTrade_p = Some 145, latestQuote_ap = None\<rparr> \<and>
   145 \<le> stop_loss_price pos_long \<and>
   snd (monitorPosition env_close_fails (world_of [pos_long]) ''p1'') = Inl (JsError ''Close failed'') \<and>
   map_option status (getManagedPosition (fst (monitorPosition env_close_fails (world_of [pos_long]) ''p1'')) ''p1'')
     = Some Error \<and>
   getManagedPosition (world_of [pos_short]) ''p2'' = Some pos_short \<and>
   status pos_short = Active \<and>
   getSnapshot env_at_200 (now (world_of [pos_short])) (symbol pos_short)
     = Inr \<lparr>latestTrade_p = Some 200, latestQuote_ap = None\<rparr> \<and>
   take_profit_price pos_short \<le> 200 \<and>
   snd (monitorPosition env_at_200 (world_of [pos_short]) ''p2'')
     = Inr \<lparr>triggered = True, reason = Some ''stop_loss'', action = Some ''closed''\<rparr>"
proof -
  have c1: "price_of \<lparr>latestTrade_p = Some 145, latestQuote_ap = None\<rparr> = Some 145" by simp
  have c2: "price_of \<lparr>latestTrade_p = Some 200, latestQuote_ap = None\<rparr> = Some 200" by simp
  have t1: "(145::real) \<le> stop_loss_price pos_long \<or> take_profit_price pos_long \<le> 145"
    by (simp add: pos_long_def)
  have t2: "(200::real) \<le> stop_loss_price pos_short" by (simp add: pos_short_def)
  from monitor_close_fails[OF long_row long_active sample_snapshots(2) c1 _ sample_closes(5) t1]
  have f: "snd (monitorPosition env_close_fails (world_of [pos_long]) ''p1'') = Inl (JsError ''Close failed'')"
      "map_option status (getManagedPosition (fst (monitorPosition env_close_fails (world_of [pos_long]) ''p1'')) ''p1'')
         = Some Error"
    by simp_all
  from monitor_close_ok(1)[OF short_row short_active sample_snapshots(5) c2 _ sample_closes(4) t2]
  have o: "snd (monitorPosition env_at_200 (world_of [pos_short]) ''p2'')
     = Inr \<lparr>triggered = True, reason = Some ''stop_loss'', action = Some ''closed''\<rparr>"
    by simp
  show ?thesis using f o long_row short_row sample_snapshots(2,5)
    by (simp add: pos_long_def pos_short_def)
qed

subsection \<open>Priority of the stop-loss check\<close>

text \<open>
  C10 (as amended). When the current price is at most the stop-loss price and at least the
  take-profit price, monitorPosition takes the stop-loss branch: it calls
  closeManagedPosition with the reason "stop_loss_triggered" and never with
  "take_profit_triggered". When the gateway's close succeeds it returns reason
  "stop_loss" and leaves the record closed with that reason; when the gateway's close
  fails it re-raises the error and leaves the record in status error. Both conditions can
  hold for a short position, whose take-profit price is at most and whose stop-loss price
  is at least the entry price.
\<close>

theorem stop_loss_checked_first:
  assumes "getManagedPosition w i = Some p"
      and "status p = Active \<or> status p = Monitoring"
      and "getSnapshot env (now w) (symbol p) = Inr snap"
      and "price_of snap = Some c" and "c \<noteq> 0"
      and "c \<le> stop_loss_price p" and "take_profit_price p \<le> c"
  shows "monitorPosition env w i =
           (case closeManagedPosition env
                   (logger Warn ''Stop-loss triggered''
                      (fst (updateManagedPosition (called (GetSnapshot (symbol p)) w) i c)))
                   i ''stop_loss_triggered'' (Some c) of
              (w', Inl e) \<Rightarrow> (logger Err ''Failed to monitor position'' w', Inl e)
            | (w', Inr u) \<Rightarrow>
                (w', Inr \<lparr>triggered = True, reason = Some ''stop_loss'', action = Some ''closed''\<rparr>)) \<and>
         (closePosition env (Suc (now w)) (symbol p) = Inr ord \<longrightarrow>
            snd (monitorPosition env w i) =
              Inr \<lparr>triggered = True, reason = Some ''stop_loss'', action = Some ''closed''\<rparr> \<and>
            getManagedPosition (fst (monitorPosition env w i)) i =
              Some (closed_as (priced p (Suc (now w)) c) ''stop_loss_triggered'' c (order_id ord)
                      (Suc (Suc (now w))))) \<and>
         (closePosition env (Suc (now w)) (symbol p) = Inl err \<longrightarrow>
            snd (monitorPosition env w i) = Inl err \<and>
            getManagedPosition (fst (monitorPosition env w i)) i =
              Some ((priced p (Suc (now w)) c)\<lparr>status := Error,
                      closed_reason := Some (''Error: '' @ message err),
                      updated_at := Suc (Suc (now w))\<rparr>)) \<and>
         (binary64 e0 \<and> 0 < e0 \<and> 0 < sl \<and> 0 < tp \<longrightarrow>
            takeProfitPrice (calculatePrices e0 sl tp sell) \<le> e0 \<and>
            e0 \<le> stopLossPrice (calculatePrices e0 sl tp sell))"
proof (intro conjI impI)
  have c': "js_or (latestTrade_p snap) (latestQuote_ap snap) = Some c"
    using assms(4) by (simp add: price_of_def)
  show "monitorPosition env w i =
           (case closeManagedPosition env
                   (logger Warn ''Stop-loss triggered''
                      (fst (updateManagedPosition (called (GetSnapshot (symbol p)) w) i c)))
                   i ''stop_loss_triggered'' (Some c) of
              (w', Inl e) \<Rightarrow> (logger Err ''Failed to monitor position'' w', Inl e)
            | (w', Inr u) \<Rightarrow>
                (w', Inr \<lparr>triggered = True, reason = Some ''stop_loss'', action = Some ''closed''\<rparr>))"
    by (simp add: monitor_priced[OF assms(1,2,3) c' assms(5)] check_stop_loss[OF assms(6)]
          split: prod.splits sum.splits)
next
  assume o: "closePosition env (Suc (now w)) (symbol p) = Inr ord"
  from monitor_close_ok(1)[OF assms(1-5) o assms(6)]
  show "snd (monitorPosition env w i) =
              Inr \<lparr>triggered = True, reason = Some ''stop_loss'', action = Some ''closed''\<rparr>"
   and "getManagedPosition (fst (monitorPosition env w i)) i =
              Some (closed_as (priced p (Suc (now w)) c) ''stop_loss_triggered'' c (order_id ord)
                      (Suc (Suc (now w))))"
    by simp_all
next
  assume o: "closePosition env (Suc (now w)) (symbol p) = Inl err"
  have t: "c \<le> stop_loss_price p \<or> take_profit_price p \<le> c" using assms(6) by simp
  from monitor_close_fails[OF assms(1-5) o t]
  show "snd (monitorPosition env w i) = Inl err"
   and "getManagedPosition (fst (monitorPosition env w i)) i =
              Some ((priced p (Suc (now w)) c)\<lparr>status := Error,
                      closed_reason := Some (''Error: '' @ message err),
                      updated_at := Suc (Suc (now w))\<rparr>)"
    by simp_all
next
  assume h: "binary64 e0 \<and> 0 < e0 \<and> 0 < sl \<and> 0 < tp"
  then have b: "binary64 e0" and e: "0 \<le> e0" and s: "0 \<le> sl" and t: "0 \<le> tp" by simp_all
  show "takeProfitPrice (calculatePrices e0 sl tp sell) \<le> e0"
    using price_below[OF b e t] by (simp add: calculatePrices_def)
  show "e0 \<le> stopLossPrice (calculatePrices e0 sl tp sell)"
    using price_above[OF b e s] by (simp add: calculatePrices_def)
qed

theorem stop_loss_checked_first_witness:
  "getManagedPosition (world_of [pos_short]) ''p2'' = Some pos_short \<and>
   (status pos_short = Active \<or> status pos_short = Monitoring) \<and>
   getSnapshot env_at_200 (now (world_of [pos_short])) (symbol pos_short)
     = Inr \<lparr>latestTrade_p = Some 200, latestQuote_ap = None\<rparr> \<and>
   price_of \<lparr>latestTrade_p = Some 200, latestQuote_ap = None\<rparr> = Some 200 \<and>
   200 \<le> stop_loss_price pos_short \<and> take_profit_price pos_short \<le> 200 \<and>
   closePosition env_at_200 (Suc (now (world_of [pos_short]))) (symbol pos_short)
     = Inr \<lparr>order_id = ''close-order-123'', filled_avg_price = None\<rparr> \<and>
   snd (monitorPosition env_at_200 (world_of [pos_short]) ''p2'')
     = Inr \<lparr>triggered = True, reason = Some ''stop_loss'', action = Some ''closed''\<rparr> \<and>
   map_option closed_reason
     (getManagedPosition (fst (monitorPosition env_at_200 (world_of [pos_short]) ''p2'')) ''p2'')
     = Some (Some ''stop_loss_triggered'') \<and>
   closePosition env_at_200_fails (Suc (now (world_of [pos_short]))) (symbol pos_short)
     = Inl (JsError ''Close failed'') \<and>
   snd (monitorPosition env_at_200_fails (world_of [pos_short]) ''p2'') = Inl (JsError ''Close failed'') \<and>
   map_option status
     (getManagedPosition (fst (monitorPosition env_at_200_fails (world_of [pos_short]) ''p2'')) ''p2'')
     = Some Error \<and>
   binary64 200 \<and>
   stop_loss_price pos_short = stopLossPrice (calculatePrices 200 3 4 sell) \<and>
   take_profit_price pos_short = takeProfitPrice (calculatePrices 200 3 4 sell) \<and>
   takeProfitPrice (calculatePrices 200 3 4 sell) \<le> 200 \<and>
   200 \<le> stopLossPrice (calculatePrices 200 3 4 sell)"
proof -
  have c: "price_of \<lparr>latestTrade_p = Some 200, latestQuote_ap = None\<rparr> = Some 200" by simp
  have t: "(200::real) \<le> stop_loss_price pos_short" "take_profit_price pos_short \<le> 200"
    by (simp_all add: pos_short_def)
  have e: "stop_loss_price pos_short = stopLossPrice (calculatePrices 200 3 4 sell)"
          "take_profit_price pos_short = takeProfitPrice (calculatePrices 200 3 4 sell)"
    by (simp_all add: pos_short_def calculatePrices_def stop_200_3 profit_200_4)
  have z: "(200::real) \<noteq> 0" by simp
  note th = stop_loss_checked_first[OF short_row short_active sample_snapshots(5) c z t,
      where ord = "\<lparr>order_id = ''close-order-123'', filled_avg_price = None\<rparr>"
        and ?e0.0 = 200 and sl = 3 and tp = 4, THEN conjunct2]
  note th' = stop_loss_checked_first[OF short_row short_active sample_fail_200(1) c z t,
      where err = "JsError ''Close failed''", THEN conjunct2, THEN conjunct2, THEN conjunct1,
      rule_format, OF sample_fail_200(2)]
  have o: "closePosition env_at_200 (Suc (now (world_of [pos_short]))) (symbol pos_short)
     = Inr \<lparr>order_id = ''close-order-123'', filled_avg_price = None\<rparr>"
    by (rule sample_closes)
  note th3 = th[THEN conjunct1, rule_format, OF o]
  have pos: "binary64 200 \<and> (0::real) < 200 \<and> (0::real) < 3 \<and> (0::real) < 4"
    using binary64_200 by simp
  note th4 = th[THEN conjunct2, THEN conjunct2, rule_format, OF pos]
  have r: "snd (monitorPosition env_at_200 (world_of [pos_short]) ''p2'')
          = Inr \<lparr>triggered = True, reason = Some ''stop_loss'', action = Some ''closed''\<rparr>"
       "map_option closed_reason
          (getManagedPosition (fst (monitorPosition env_at_200 (world_of [pos_short]) ''p2'')) ''p2'')
          = Some (Some ''stop_loss_triggered'')"
       "takeProfitPrice (calculatePrices 200 3 4 sell) \<le> 200"
       "200 \<le> stopLossPrice (calculatePrices 200 3 4 sell)"
    using th3 th4 by (simp_all add: closed_as_def)
  have f: "snd (monitorPosition env_at_200_fails (world_of [pos_short]) ''p2'') = Inl (JsError ''Close failed'')"
      "map_option status
         (getManagedPosition (fst (monitorPosition env_at_200_fails (world_of [pos_short]) ''p2'')) ''p2'')
         = Some Error"
    using th' by simp_all
  show ?thesis
    using r f short_row short_active c t e binary64_200 sample_fail_200(2)
    by (simp add: sample_snapshots sample_closes)
qed

text \<open>
  As the specification states it, the property fails on a failing gateway: a short
  position at 200 with stop-loss 206 and take-profit 192 meets both conditions, the close
  is attempted for the stop-loss, and the record ends in status error, not closed.
\<close>

theorem stop_loss_close_fails_counterexample:
  "getManagedPosition (world_of [pos_short]) ''p2'' = Some pos_short \<and>
   status pos_short = Active \<and>
   getSnapshot env_at_200_fails (now (world_of [pos_short])) (symbol pos_short)
     = Inr \<lparr>latestTrade_p = Some 200, latestQuote_ap = None\<rparr> \<and>
   200 \<le> stop_loss_price pos_short \<and> take_profit_price pos_short \<le> 200 \<and>
   snd (monitorPosition env_at_200_fails (world_of [pos_short]) ''p2'') = Inl (JsError ''Close failed'') \<and>
   map_option status
     (getManagedPosition (fst (monitorPosition env_at_200_fails (world_of [pos_short]) ''p2'')) ''p2'')
     = Some Error \<and>
   map_option closed_reason
     (getManagedPosition (fst (monitorPosition env_at_200_fails (world_of [pos_short]) ''p2'')) ''p2'')
     = Some (Some ''Error: Close failed'')"
proof -
  have c: "price_of \<lparr>latestTrade_p = Some 200, latestQuote_ap = None\<rparr> = Some 200" by simp
  have t: "(200::real) \<le> stop_loss_price pos_short \<or> take_profit_price pos_short \<le> 200"
    by (simp add: pos_short_def)
  from monitor_close_fails[OF short_row short_active sample_fail_200(1) c _ sample_fail_200(2) t]
  have f: "snd (monitorPosition env_at_200_fails (world_of [pos_short]) ''p2'') = Inl (JsError ''Close failed'')"
      "map_option status
         (getManagedPosition (fst (monitorPosition env_at_200_fails (world_of [pos_short]) ''p2'')) ''p2'')
         = Some Error"
      "map_option closed_reason
         (getManagedPosition (fst (monitorPosition env_at_200_fails (world_of [pos_short]) ''p2'')) ''p2'')
         = Some (Some ''Error: Close failed'')"
    by simp_all
  show ?thesis using f short_row sample_fail_200(1)
    by (simp add: pos_short_def)
qed

subsection \<open>The monitoring cycle\<close>

lemma getActive_logger [simp]:
  "getActiveManagedPositions (logger l m w) = getActiveManagedPositions w"
  by (simp add: getActiveManagedPositions_def)

lemma monitorAllPositions_unfold:
  "monitorAllPositions env w =
     (logger Info ''Position monitoring cycle completed''
        (fst (monitor_loop env (getActiveManagedPositions w)
                (logger Info ''Starting position monitoring cycle'' w, 0, 0))),
      \<lparr>total_n = length (getActiveManagedPositions w),
       triggered_n = fst (snd (monitor_loop env (getActiveManagedPositions w)
                (logger Info ''Starting position monitoring cycle'' w, 0, 0))),
       errors_n = snd (snd (monitor_loop env (getActiveManagedPositions w)
                (logger Info ''Starting position monitoring cycle'' w, 0, 0)))\<rparr>)"
  by (simp add: monitorAllPositions_def Let_def split: prod.splits)

text \<open>
  C6. monitorAllPositions evaluates every fetched position inside its own error boundary.
  With \<open>ps\<close> the fetched active/monitoring positions and \<open>tr\<close> the evaluations of the
  cycle in order: there is one evaluation per fetched position, each is the outcome of
  monitorPosition on that position in the state the previous ones left (whether they
  returned or raised); the result reports total = number fetched, triggered = number of
  evaluations that returned triggered = true, errors = number of evaluations that raised;
  and every position for which the provider supplied a price at its evaluation has that
  price as its stored current price when the cycle ends, wherever in the list an
  evaluation raised (for a table whose ids are distinct: \<open>id\<close> is the primary key).
\<close>

theorem monitorAllPositions_isolation:
  assumes ps: "ps = getActiveManagedPositions w"
      and tr: "tr = cycle_trace env (logger Info ''Starting position monitoring cycle'' w) ps"
  shows "total_n (snd (monitorAllPositions env w)) = length ps \<and>
         length tr = length ps \<and>
         triggered_n (snd (monitorAllPositions env w)) = count_where is_triggered (map snd tr) \<and>
         errors_n (snd (monitorAllPositions env w)) = count_where isl (map snd tr) \<and>
         (k < length ps \<longrightarrow>
            snd (tr ! k) = snd (monitorPosition env (fst (tr ! k)) (pos_id (ps ! k)))) \<and>
         (distinct (map pos_id (rows w)) \<and> k < length ps \<and>
          getSnapshot env (now (fst (tr ! k))) (symbol (ps ! k)) = Inr snap \<and>
          price_of snap = Some c \<and> c \<noteq> 0 \<longrightarrow>
            (\<exists>r. getManagedPosition (fst (monitorAllPositions env w)) (pos_id (ps ! k)) = Some r \<and>
                 current_price r = Some c))"
proof -
  let ?w0 = "logger Info ''Starting position monitoring cycle'' w"
  have cnt: "snd (monitor_loop env ps (?w0, 0, 0)) =
               (count_where is_triggered (map snd tr), count_where isl (map snd tr))"
    using monitor_loop_counts[of env ps ?w0 0 0] tr by simp
  have ps0: "ps = getActiveManagedPositions ?w0" using ps by simp
  have price: "\<exists>r. getManagedPosition (fst (monitorAllPositions env w)) (pos_id (ps ! k)) = Some r \<and>
                 current_price r = Some c"
    if d: "distinct (map pos_id (rows w))" and k: "k < length ps"
      and s: "getSnapshot env (now (fst (tr ! k))) (symbol (ps ! k)) = Inr snap"
      and c: "price_of snap = Some c" "c \<noteq> 0"
  proof -
    have d0: "distinct (map pos_id (rows ?w0))" using d by simp
    have dist: "distinct (map pos_id ps)" and pre:
      "\<forall>p \<in> set ps. getManagedPosition ?w0 (pos_id p) = Some p \<and> (status p = Active \<or> status p = Monitoring)"
      using active_positions[OF d0] ps0 by simp_all
    show ?thesis
      using monitor_loop_prices[OF dist pre k s[unfolded tr] c, of 0 0] ps
      by (simp add: monitorAllPositions_unfold)
  qed
  have ev: "snd (tr ! k) = snd (monitorPosition env (fst (tr ! k)) (pos_id (ps ! k)))"
    if "k < length ps"
    unfolding tr by (rule cycle_trace_evaluates[OF that])
  show ?thesis
    using cnt ps tr price ev
    by (simp add: monitorAllPositions_unfold length_cycle_trace)
qed

text \<open>
  A cycle in the manner of Scenario D: four rows, one closed and not fetched; the price
  fetch of the second fetched position throws; the first is closed for take-profit.
\<close>

lemma cycle_rows_distinct:
  "distinct (map pos_id (rows (world_of [pos_long, pos_short, pos_done, pos_up])))"
  by (simp add: ex_defs)

lemma cycle_fetched:
  "getActiveManagedPositions (world_of [pos_long, pos_short, pos_done, pos_up]) = [pos_up, pos_short, pos_long]"
  by (simp add: getActiveManagedPositions_def world_of_def)
     (simp add: pos_long_def pos_short_def pos_done_def pos_up_def)

lemma cycle_result:
  "snd (monitorAllPositions env_mixed (world_of [pos_long, pos_short, pos_done, pos_up]))
     = \<lparr>total_n = 3, triggered_n = 1, errors_n = 1\<rparr>"
  unfolding monitorAllPositions_unfold cycle_fetched
  apply (simp add: monitorPosition_def monitorPosition_try_def check_triggers_def
      getManagedPosition_def findUnique_def updateManagedPosition_def prisma_update_def
      closeManagedPosition_def closeManagedPosition_try_def updateTrailingStop_def
      js_or_def or_num_def not_triggered_def Let_def ex_defs stop_152_2)
  done

theorem monitorAllPositions_isolation_witness:
  "distinct (map pos_id (rows (world_of [pos_long, pos_short, pos_done, pos_up]))) \<and>
   getActiveManagedPositions (world_of [pos_long, pos_short, pos_done, pos_up])
     = [pos_up, pos_short, pos_long] \<and>
   getSnapshot env_mixed 0 (symbol pos_short) = Inl (JsError ''timeout'') \<and>
   snd (monitorAllPositions env_mixed (world_of [pos_long, pos_short, pos_done, pos_up]))
     = \<lparr>total_n = 3, triggered_n = 1, errors_n = 1\<rparr> \<and>
   (\<exists>r. getManagedPosition
           (fst (monitorAllPositions env_mixed (world_of [pos_long, pos_short, pos_done, pos_up])))
           (pos_id pos_long) = Some r \<and> current_price r = Some 152) \<and>
   (\<exists>r. getManagedPosition
           (fst (monitorAllPositions env_mixed (world_of [pos_long, pos_short, pos_done, pos_up])))
           (pos_id pos_up) = Some r \<and> current_price r = Some 152)"
proof -
  let ?w = "world_of [pos_long, pos_short, pos_done, pos_up]"
  have s: "getSnapshot env_mixed t (symbol pos_long) = Inr \<lparr>latestTrade_p = Some 152, latestQuote_ap = None\<rparr>"
          "getSnapshot env_mixed t (symbol pos_up) = Inr \<lparr>latestTrade_p = Some 152, latestQuote_ap = None\<rparr>"
          "getSnapshot env_mixed t (symbol pos_short) = Inl (JsError ''timeout'')" for t
    by (simp_all add: ex_defs)
  have c: "price_of \<lparr>latestTrade_p = Some 152, latestQuote_ap = None\<rparr> = Some 152" by simp
  note th = monitorAllPositions_isolation[OF cycle_fetched[symmetric] refl,
      where env = env_mixed and snap = "\<lparr>latestTrade_p = Some 152, latestQuote_ap = None\<rparr>" and c = 152]
  have p2: "\<exists>r. getManagedPosition (fst (monitorAllPositions env_mixed ?w)) (pos_id pos_long) = Some r
               \<and> current_price r = Some 152"
    using th[where k = 2] s(1) c cycle_rows_distinct by simp
  have p0: "\<exists>r. getManagedPosition (fst (monitorAllPositions env_mixed ?w)) (pos_id pos_up) = Some r
               \<and> current_price r = Some 152"
    using th[where k = 0] s(2) c cycle_rows_distinct by simp
  show ?thesis
    using cycle_rows_distinct cycle_fetched cycle_result p2 p0 s(3) by simp
qed

subsection \<open>The entry price at creation\<close>

lemma sample_order:
  "placeOrder env_no_price t rq = Inr \<lparr>order_id = ''order-1'', filled_avg_price = None\<rparr>"
  "placeOrder env_calm t rq = Inr \<lparr>order_id = ''order-1'', filled_avg_price = None\<rparr>"
  "placeOrder env_fetch_throws t rq = Inr \<lparr>order_id = ''order-1'', filled_avg_price = None\<rparr>"
  by (simp_all add: ex_defs)

lemma sample_gaps:
  "getSnapshot env_no_price t s = Inr \<lparr>latestTrade_p = None, latestQuote_ap = None\<rparr>"
  "getSnapshot env_fetch_throws t s = Inl (JsError ''timeout'')"
  by (simp_all add: ex_defs)

lemma created_without_price:
  "\<exists>r. getManagedPosition (fst (createManagedPosition env_no_price (world_of []) params_buy)) ''new-id''
          = Some r \<and>
       rows (fst (createManagedPosition env_no_price (world_of []) params_buy)) = [r] \<and>
       snd (createManagedPosition env_no_price (world_of []) params_buy) = Inr r \<and>
       symbol r = ''AAPL'' \<and> status r = Active \<and> entry_price r = 0 \<and>
       stop_loss_price r = 0 \<and> take_profit_price r = 0"
  by (simp add: createManagedPosition_def createManagedPosition_try_def entry_price_of_def
        prisma_create_def or_num_def calculatePrices_def Let_def sample_order sample_gaps
        getManagedPosition_def findUnique_def)
     (simp add: world_of_def params_buy_def env_no_price_def env_of_def)

text \<open>
  C1. The specification asks that a creation whose entry order has no fill price and
  whose fallback price query yields no price fail with a PriceUnavailable error and
  persist nothing, so that every persisted record has a positive entry price. The code
  does otherwise: on these inputs createManagedPosition returns successfully and
  persists an active record with entry price 0 and both thresholds 0, and the next
  evaluation of that record, at the price 152, closes it for take-profit.
\<close>

theorem createManagedPosition_no_price_stores_zero:
  "placeOrder env_no_price (now (world_of [])) (entry_request params_buy)
     = Inr \<lparr>order_id = ''order-1'', filled_avg_price = None\<rparr> \<and>
   getSnapshot env_no_price (Suc (now (world_of []))) (p_symbol params_buy)
     = Inr \<lparr>latestTrade_p = None, latestQuote_ap = None\<rparr> \<and>
   \<not> isl (snd (createManagedPosition env_no_price (world_of []) params_buy)) \<and>
   map status (rows (fst (createManagedPosition env_no_price (world_of []) params_buy))) = [Active] \<and>
   map entry_price (rows (fst (createManagedPosition env_no_price (world_of []) params_buy))) = [0] \<and>
   map stop_loss_price (rows (fst (createManagedPosition env_no_price (world_of []) params_buy))) = [0] \<and>
   map take_profit_price (rows (fst (createManagedPosition env_no_price (world_of []) params_buy))) = [0] \<and>
   snd (monitorPosition env_calm (fst (createManagedPosition env_no_price (world_of []) params_buy))
          ''new-id'')
     = Inr \<lparr>triggered = True, reason = Some ''take_profit'', action = Some ''closed''\<rparr>"
proof -
  let ?w = "fst (createManagedPosition env_no_price (world_of []) params_buy)"
  from created_without_price obtain r where
    r: "getManagedPosition ?w ''new-id'' = Some r" "rows ?w = [r]"
       "snd (createManagedPosition env_no_price (world_of []) params_buy) = Inr r"
       "symbol r = ''AAPL''" "status r = Active" "entry_price r = 0"
       "stop_loss_price r = 0" "take_profit_price r = 0" by blast
  have a: "status r = Active \<or> status r = Monitoring" using r(5) by simp
  have c: "price_of \<lparr>latestTrade_p = Some 152, latestQuote_ap = None\<rparr> = Some 152" by simp
  have n: "\<not> (152::real) \<le> stop_loss_price r" "take_profit_price r \<le> 152" using r(7,8) by simp_all
  from monitor_close_ok(2)[OF r(1) a sample_snapshots(4) c _ sample_closes(3) n]
  have m: "snd (monitorPosition env_calm ?w ''new-id'')
     = Inr \<lparr>triggered = True, reason = Some ''take_profit'', action = Some ''closed''\<rparr>"
    by simp
  show ?thesis using r m by (simp add: sample_order sample_gaps)
qed

subsection \<open>Validation of creation parameters\<close>

lemma upper_aapl: "toUpperCase ''aapl'' = ''AAPL''"
  by code_simp

lemma parse_good: "createManagedPositionSchema_parse body_good = Some params_good"
  by (simp add: createManagedPositionSchema_parse_def body_good_def params_good_def upper_aapl)

text \<open>
  C8 (as amended). Malformed creation parameters are rejected by the schema of the POST
  route, before the service is called: for every request body with a non-positive qty or
  a stop-loss or take-profit percentage outside (0, 100], POST answers 400 "Validation
  error" and leaves the state untouched (no order placed, no record created, nothing
  logged); and whenever the route does call createManagedPosition, the parameters it
  passes have a positive qty and percentages in (0, 100]. createManagedPosition itself
  validates nothing.
\<close>

theorem POST_rejects_malformed:
  "(b_qty body \<le> 0 \<or> b_stopLossPct body \<le> 0 \<or> 100 < b_stopLossPct body \<or>
    b_takeProfitPct body \<le> 0 \<or> 100 < b_takeProfitPct body \<longrightarrow>
      POST env w body =
        (w, \<lparr>http_status = 400, success = False, data = None,
              error_text = Some ''Validation error''\<rparr>)) \<and>
   (createManagedPositionSchema_parse body = Some v \<longrightarrow>
      0 < p_qty v \<and> 0 < p_stopLossPct v \<and> p_stopLossPct v \<le> 100 \<and>
      0 < p_takeProfitPct v \<and> p_takeProfitPct v \<le> 100 \<and>
      POST env w body =
        (case createManagedPosition env (logger Info ''Creating managed position via API'' w) v of
           (w', Inr managedPosition) \<Rightarrow>
             (w', \<lparr>http_status = 201, success = True, data = Some managedPosition, error_text = None\<rparr>)
         | (w', Inl e) \<Rightarrow>
             (logger Err ''Failed to create managed position via API'' w',
              \<lparr>http_status = 500, success = False, data = None,
               error_text = Some (message_or e ''Failed to create managed position'')\<rparr>)))"
proof (intro conjI impI)
  assume "b_qty body \<le> 0 \<or> b_stopLossPct body \<le> 0 \<or> 100 < b_stopLossPct body \<or>
    b_takeProfitPct body \<le> 0 \<or> 100 < b_takeProfitPct body"
  then have "createManagedPositionSchema_parse body = None"
    by (auto simp: createManagedPositionSchema_parse_def)
  then show "POST env w body =
        (w, \<lparr>http_status = 400, success = False, data = None,
              error_text = Some ''Validation error''\<rparr>)"
    by (simp add: POST_def)
next
  assume v: "createManagedPositionSchema_parse body = Some v"
  then show "0 < p_qty v" "0 < p_stopLossPct v" "p_stopLossPct v \<le> 100"
      "0 < p_takeProfitPct v" "p_takeProfitPct v \<le> 100"
    by (auto simp: createManagedPositionSchema_parse_def split: if_splits)
  from v show "POST env w body =
        (case createManagedPosition env (logger Info ''Creating managed position via API'' w) v of
           (w', Inr managedPosition) \<Rightarrow>
             (w', \<lparr>http_status = 201, success = True, data = Some managedPosition, error_text = None\<rparr>)
         | (w', Inl e) \<Rightarrow>
             (logger Err ''Failed to create managed position via API'' w',
              \<lparr>http_status = 500, success = False, data = None,
               error_text = Some (message_or e ''Failed to create managed position'')\<rparr>))"
    by (simp add: POST_def split: prod.splits sum.splits)
qed

theorem POST_rejects_malformed_witness:
  "b_qty body_bad \<le> 0 \<and>
   POST env_calm (world_of []) body_bad =
     (world_of [], \<lparr>http_status = 400, success = False, data = None,
                    error_text = Some ''Validation error''\<rparr>) \<and>
   createManagedPositionSchema_parse body_good = Some params_good \<and>
   0 < p_qty params_good \<and> 0 < p_stopLossPct params_good \<and> p_stopLossPct params_good \<le> 100"
proof -
  have q: "b_qty body_bad \<le> 0" by (simp add: body_bad_def)
  note a = POST_rejects_malformed[where body = body_bad and env = env_calm and w = "world_of []",
              THEN conjunct1]
  note b = POST_rejects_malformed[where body = body_good and v = params_good, THEN conjunct2,
              rule_format, OF parse_good]
  show ?thesis using a b q parse_good by simp
qed

text \<open>
  As the specification states it, the property fails for the service method: called with qty
  -1 and a stop-loss percentage of 150 it places the order and creates the record.
\<close>

theorem createManagedPosition_unvalidated_counterexample:
  "p_qty params_bad \<le> 0 \<and> 100 < p_stopLossPct params_bad \<and>
   \<not> isl (snd (createManagedPosition env_calm (world_of []) params_bad)) \<and>
   calls (fst (createManagedPosition env_calm (world_of []) params_bad))
     = [PlaceOrder (entry_request params_bad), GetSnapshot ''AAPL''] \<and>
   map qty (rows (fst (createManagedPosition env_calm (world_of []) params_bad))) = [- 1]"
  by (simp add: createManagedPosition_def createManagedPosition_try_def entry_price_of_def
        prisma_create_def or_num_def calculatePrices_def Let_def sample_order sample_snapshots
        entry_request_def)
     (simp add: world_of_def params_bad_def)

subsection \<open>Closed records\<close>

lemma find_SomeD: "find P xs = Some x \<Longrightarrow> x \<in> set xs \<and> P x"
  by (induction xs) (auto split: if_splits)

lemma distinct_ids_eq:
  "distinct (map pos_id xs) \<Longrightarrow> p \<in> set xs \<Longrightarrow> q \<in> set xs \<Longrightarrow> pos_id p = pos_id q \<Longrightarrow> p = q"
  by (metis distinct_map inj_on_eq_iff)

lemma closed_not_fetched:
  assumes g: "getManagedPosition w i = Some p" and c: "status p = Closed"
      and d: "distinct (map pos_id (rows w))"
  shows "i \<notin> pos_id ` set (getActiveManagedPositions w)"
proof
  assume "i \<in> pos_id ` set (getActiveManagedPositions w)"
  then obtain q where q: "q \<in> set (rows w)" "status q = Active \<or> status q = Monitoring" "pos_id q = i"
    by (auto simp: getActiveManagedPositions_def)
  from g have p: "p \<in> set (rows w)" "pos_id p = i"
    using find_SomeD[of "\<lambda>r. pos_id r = i" "rows w" p]
    by (simp_all add: getManagedPosition_def findUnique_def)
  from distinct_ids_eq[OF d p(1) q(1)] p(2) q(3) have "p = q" by simp
  with c q(2) show False by simp
qed

text \<open>
  C9 (as amended). A record whose status is closed is left as it is by monitorPosition,
  which returns triggered = false without a price fetch or a store write; it is not among
  the positions a monitoring cycle fetches and is unchanged when the cycle ends; and the
  DELETE route refuses to close it again, answering 400 "Position is already closed"
  without calling the service. The service methods closeManagedPosition and
  updateManagedPosition carry no such guard.
\<close>

theorem closed_record_guards:
  assumes "getManagedPosition w i = Some p" and "status p = Closed"
  shows "monitorPosition env w i = (w, Inr not_triggered) \<and>
         DELETE env w i reason_param =
           (logger Info ''Closing managed position via API'' w,
            \<lparr>http_status = 400, success = False, data = None,
             error_text = Some ''Position is already closed''\<rparr>) \<and>
         p \<notin> set (getActiveManagedPositions w) \<and>
         (distinct (map pos_id (rows w)) \<longrightarrow>
            getManagedPosition (fst (monitorAllPositions env w)) i = Some p)"
proof (intro conjI impI)
  show "monitorPosition env w i = (w, Inr not_triggered)"
    using assms by (simp add: monitorPosition_def)
  show "DELETE env w i reason_param =
           (logger Info ''Closing managed position via API'' w,
            \<lparr>http_status = 400, success = False, data = None,
             error_text = Some ''Position is already closed''\<rparr>)"
    using assms by (simp add: DELETE_def Let_def)
  show "p \<notin> set (getActiveManagedPositions w)"
    using assms(2) by (auto simp: getActiveManagedPositions_def)
next
  assume d: "distinct (map pos_id (rows w))"
  have "findUnique (fst (monitor_loop env (getActiveManagedPositions w)
            (logger Info ''Starting position monitoring cycle'' w, 0, 0))) i
          = findUnique (logger Info ''Starting position monitoring cycle'' w) i"
    by (rule monitor_loop_frame[OF closed_not_fetched[OF assms d]])
  then show "getManagedPosition (fst (monitorAllPositions env w)) i = Some p"
    using assms(1) by (simp add: monitorAllPositions_unfold getManagedPosition_def)
qed

theorem closed_record_guards_witness:
  "getManagedPosition (world_of [pos_long, pos_short, pos_done, pos_up]) ''p3'' = Some pos_done \<and>
   status pos_done = Closed \<and>
   distinct (map pos_id (rows (world_of [pos_long, pos_short, pos_done, pos_up]))) \<and>
   monitorPosition env_drop (world_of [pos_long, pos_short, pos_done, pos_up]) ''p3''
     = (world_of [pos_long, pos_short, pos_done, pos_up], Inr not_triggered) \<and>
   http_status (snd (DELETE env_drop (world_of [pos_long, pos_short, pos_done, pos_up]) ''p3'' None)) = 400 \<and>
   rows (fst (DELETE env_drop (world_of [pos_long, pos_short, pos_done, pos_up]) ''p3'' None))
     = [pos_long, pos_short, pos_done, pos_up] \<and>
   calls (fst (DELETE env_drop (world_of [pos_long, pos_short, pos_done, pos_up]) ''p3'' None)) = [] \<and>
   getManagedPosition (fst (monitorAllPositions env_mixed (world_of [pos_long, pos_short, pos_done, pos_up]))) ''p3''
     = Some pos_done"
proof -
  let ?w = "world_of [pos_long, pos_short, pos_done, pos_up]"
  have g: "getManagedPosition ?w ''p3'' = Some pos_done"
    by (simp add: getManagedPosition_def findUnique_def ex_defs)
  have c: "status pos_done = Closed" by (simp add: pos_done_def)
  note a = closed_record_guards[OF g c, where env = env_drop and reason_param = None]
  note b = closed_record_guards[OF g c, where env = env_mixed, THEN conjunct2, THEN conjunct2,
             THEN conjunct2, rule_format, OF cycle_rows_distinct]
  have r: "rows ?w = [pos_long, pos_short, pos_done, pos_up]" "calls ?w = []"
    by (simp_all add: world_of_def)
  show ?thesis using a b g c cycle_rows_distinct r by simp
qed

text \<open>
  As the specification states it, the property fails: called directly on a closed record,
  closeManagedPosition overwrites its closed reason and exit-order reference, and
  updateManagedPosition its current price.
\<close>

theorem closed_record_overwritten_counterexample:
  "getManagedPosition (world_of [pos_done]) ''p3'' = Some pos_done \<and>
   status pos_done = Closed \<and>
   closed_reason pos_done = Some ''stop_loss_triggered'' \<and>
   exit_order_id pos_done = Some ''close-1'' \<and>
   current_price pos_done = Some 190 \<and>
   map_option closed_reason
     (getManagedPosition (fst (closeManagedPosition env_drop (world_of [pos_done]) ''p3'' ''manual_close'' None)) ''p3'')
     = Some (Some ''manual_close'') \<and>
   map_option exit_order_id
     (getManagedPosition (fst (closeManagedPosition env_drop (world_of [pos_done]) ''p3'' ''manual_close'' None)) ''p3'')
     = Some (Some ''close-order-123'') \<and>
   map_option current_price
     (getManagedPosition (fst (updateManagedPosition (world_of [pos_done]) ''p3'' 300)) ''p3'')
     = Some (Some 300)"
proof -
  have f: "findUnique (world_of [pos_done]) ''p3'' = Some pos_done"
    using done_row by (simp add: getManagedPosition_def)
  have v: "status pos_done = Closed" "closed_reason pos_done = Some ''stop_loss_triggered''"
    "exit_order_id pos_done = Some ''close-1''" "current_price pos_done = Some 190"
    by (simp_all add: pos_done_def)
  show ?thesis
    using close_ok_row[OF done_row sample_closes(1), of "''manual_close''" None]
          updateManagedPosition_found(2)[OF f, of 300] done_row v
    by (simp add: getManagedPosition_def)
qed

end
